theory Spec2Isabelle
  imports Main "HOL-Library.Word" "HOL-Library.Signed_Division"
begin

unbundle bit_operations_syntax

section \<open>Machine integers of AudioClip.cpp\<close>

text \<open>
  The source computes with \<^verbatim>\<open>int64_t\<close>, \<^verbatim>\<open>uint32_t\<close> and \<^verbatim>\<open>int\<close>. They are words of
  that width here. Addition, subtraction and multiplication wrap around (for the signed
  types this is the two's complement behaviour of the compiled code). Comparisons of
  \<^verbatim>\<open>int64_t\<close> values are signed (\<open><s\<close>, \<open>\<le>s\<close>), comparisons of \<^verbatim>\<open>uint32_t\<close> values are
  unsigned (\<open><\<close>, \<open>\<le>\<close>). A \<^verbatim>\<open>uint32_t\<close> operand of an \<^verbatim>\<open>int64_t\<close> operation is zero-extended
  (\<open>ucast\<close>); the casts \<^verbatim>\<open>(uint32_t)\<close> and \<^verbatim>\<open>(int)\<close> of an \<^verbatim>\<open>int64_t\<close> keep the low 32 bits
  (\<open>ucast\<close> again).
\<close>

type_synonym int64_t = "64 word"
type_synonym uint32_t = "32 word"
type_synonym c_int = "32 word"

text \<open>Division of \<^verbatim>\<open>int64_t\<close> values truncates towards zero.\<close>

definition sdiv64 :: "int64_t \<Rightarrow> int64_t \<Rightarrow> int64_t" where
  "sdiv64 a b = word_of_int (sint a sdiv sint b)"

text \<open>\<^verbatim>\<open>abs\<close> on \<^verbatim>\<open>int64_t\<close>.\<close>

definition abs64 :: "int64_t \<Rightarrow> int64_t" where
  "abs64 a = (if a <s 0 then - a else a)"

definition MAX_ALLOWED_MISMATCH_SAMPLES :: int64_t where
  "MAX_ALLOWED_MISMATCH_SAMPLES = 200"

section \<open>Collaborators declared outside AudioClip.cpp\<close>

text \<open>
  Modelled from the spec: \<^verbatim>\<open>ImGui::ImMat\<close> is declared outside the source file. The spec
  describes it as a sample container exposing a frame count and a floating-point
  timestamp, whose zero-length value is the canonical "no data" value. The record keeps
  the frame count \<^verbatim>\<open>w\<close> (a C \<^verbatim>\<open>int\<close>) and the timestamp; \<^verbatim>\<open>empty()\<close> is "no frames".
  The timestamp is a \<^verbatim>\<open>double\<close>: its type is left abstract (\<open>'ts\<close>).
\<close>

record 'ts ImMat =
  mat_w :: c_int
  mat_time_stamp :: "'ts"

definition ImMat_empty :: "'ts ImMat \<Rightarrow> bool" where
  "ImMat_empty m \<longleftrightarrow> mat_w m = 0"

text \<open>The exceptions thrown by the source, and the trap of an integer division by zero.\<close>

datatype error =
  invalid_argument string
  | runtime_error string
  | division_by_zero

text \<open>
  The media parser (\<open>'p\<close>), the source reader session (\<open>'r\<close>) and the floating-point
  conversions are parameters of the model: one record of operations, passed to every
  function that calls them. A reader operation takes the reader's state and returns the
  new one together with its result.
  \<^item> \<open>rd_ReadAudioSamples n eof r\<close> is \<^verbatim>\<open>ReadAudioSamples(mat, n, eof)\<close>: \<open>n\<close> is the value
    of the count passed in, \<open>eof\<close> the value of the flag passed in; the result is the
    return value, the matrix and the flag afterwards. The count written back is only
    logged by the source and is left out.
  \<^item> \<open>rd_duration_ms r\<close> is \<^verbatim>\<open>(int64_t)(GetAudioStream()->duration*1000)\<close>.
  \<^item> \<open>fp_samples_to_ms n rate\<close> is \<^verbatim>\<open>(int64_t)((double)n/rate*1000)\<close>,
    \<open>fp_ms_to_ts ms\<close> is \<^verbatim>\<open>(double)ms/1000\<close>, \<open>fp_ts_to_ms ts\<close> is \<^verbatim>\<open>(int64_t)(ts*1000)\<close>,
    and \<open>fp_default_ts\<close> is the timestamp of a default-constructed matrix.
  Logging has no effect on the state and is left out.
\<close>

record ('p, 'r, 'ts) collaborators =
  ps_GetBestAudioStreamIndex :: "'p \<Rightarrow> c_int"
  rd_CreateInstance :: "'r"
  rd_Open :: "'p \<Rightarrow> 'r \<Rightarrow> bool \<times> 'r"
  rd_ConfigAudioReader :: "uint32_t \<Rightarrow> uint32_t \<Rightarrow> string \<Rightarrow> 'r \<Rightarrow> bool \<times> 'r"
  rd_Start :: "'r \<Rightarrow> bool \<times> 'r"
  rd_GetError :: "'r \<Rightarrow> string"
  rd_duration_ms :: "'r \<Rightarrow> int64_t"
  rd_SeekTo :: "int64_t \<Rightarrow> 'r \<Rightarrow> bool \<times> 'r"
  rd_ReadAudioSamples :: "int \<Rightarrow> bool \<Rightarrow> 'r \<Rightarrow> (bool \<times> 'ts ImMat \<times> bool) \<times> 'r"
  rd_GetReadPos :: "'r \<Rightarrow> int64_t"
  rd_IsDirectionForward :: "'r \<Rightarrow> bool"
  rd_SetDirection :: "bool \<Rightarrow> 'r \<Rightarrow> 'r"
  rd_GetAudioOutSampleRate :: "'r \<Rightarrow> uint32_t"
  rd_GetAudioOutChannels :: "'r \<Rightarrow> uint32_t"
  rd_GetAudioOutFrameSize :: "'r \<Rightarrow> uint32_t"
  fp_samples_to_ms :: "int64_t \<Rightarrow> uint32_t \<Rightarrow> int64_t"
  fp_ms_to_ts :: "int64_t \<Rightarrow> 'ts"
  fp_ts_to_ms :: "'ts \<Rightarrow> int64_t"
  fp_default_ts :: "'ts"

text \<open>\<^verbatim>\<open>ImGui::ImMat()\<close>, the default-constructed matrix.\<close>

definition ImMat_default :: "('p, 'r, 'ts) collaborators \<Rightarrow> 'ts ImMat" where
  "ImMat_default E = \<lparr>mat_w = 0, mat_time_stamp = fp_default_ts E\<rparr>"

section \<open>AudioClip\<close>

text \<open>
  The fields of \<^verbatim>\<open>AudioClip_AudioImpl\<close>. The reader session is owned by the clip, so its
  state is a field. An attached filter is its \<^verbatim>\<open>FilterPcm\<close> function.
\<close>

type_synonym 'ts AudioFilter = "'ts ImMat \<Rightarrow> int64_t \<Rightarrow> int64_t \<Rightarrow> 'ts ImMat"

record ('r, 'ts) AudioClip =
  m_id :: int64_t
  m_trackId :: int64_t
  m_srcReader :: "'r"
  m_filter :: "'ts AudioFilter option"
  m_srcDuration :: int64_t
  m_start :: int64_t
  m_startOffset :: int64_t
  m_endOffset :: int64_t
  m_padding :: int64_t
  m_pcmFrameSize :: uint32_t
  m_readSamples :: int64_t
  m_totalSamples :: int64_t
  m_eof :: bool
  m_initSeek :: bool

definition AudioClip_Start :: "('r, 'ts) AudioClip \<Rightarrow> int64_t" where
  "AudioClip_Start c = m_start c"

definition AudioClip_Duration :: "('r, 'ts) AudioClip \<Rightarrow> int64_t" where
  "AudioClip_Duration c = m_srcDuration c + m_padding c - m_startOffset c - m_endOffset c"

definition AudioClip_End :: "('r, 'ts) AudioClip \<Rightarrow> int64_t" where
  "AudioClip_End c = m_start c + AudioClip_Duration c"

text \<open>
  The constructor. The checks and their order are those of the source; each \<^verbatim>\<open>throw\<close>
  is an \<open>Inl\<close>.
\<close>

definition AudioClip_new ::
  "('p, 'r, 'ts) collaborators \<Rightarrow> int64_t \<Rightarrow> 'p \<Rightarrow> uint32_t \<Rightarrow> uint32_t \<Rightarrow> string \<Rightarrow>
   int64_t \<Rightarrow> int64_t \<Rightarrow> int64_t \<Rightarrow> int64_t \<Rightarrow> error + ('r, 'ts) AudioClip" where
  "AudioClip_new E ident hParser outChannels outSampleRate outSampleFormat
     start end' startOffset endOffset =
   (if ps_GetBestAudioStreamIndex E hParser <s 0
    then Inl (invalid_argument ''Argument hParser has NO AUDIO stream!'')
    else case rd_Open E hParser (rd_CreateInstance E) of (opened, r1) \<Rightarrow>
      if \<not> opened then Inl (runtime_error (rd_GetError E r1))
      else case rd_ConfigAudioReader E outChannels outSampleRate outSampleFormat r1 of
        (configured, r2) \<Rightarrow>
        if \<not> configured then Inl (runtime_error (rd_GetError E r2))
        else if startOffset <s 0
          then Inl (invalid_argument ''Argument startOffset can NOT be NEGATIVE!'')
        else if endOffset <s 0
          then Inl (invalid_argument ''Argument endOffset can NOT be POSITIVE!'')
        else if end' \<le>s start
          then Inl (invalid_argument
            ''Invalid arguments start/end, clip duration is NOT LARGER than 0!'')
        else
          let srcDuration = rd_duration_ms E r2;
              c = \<lparr>m_id = ident, m_trackId = - 1, m_srcReader = r2, m_filter = None,
                   m_srcDuration = srcDuration, m_start = start,
                   m_startOffset = startOffset, m_endOffset = endOffset,
                   m_padding = (end' - start) + startOffset + endOffset - srcDuration,
                   m_pcmFrameSize = 0, m_readSamples = 0, m_totalSamples = 0,
                   m_eof = False, m_initSeek = False\<rparr>;
              c = c\<lparr>m_totalSamples :=
                     sdiv64 (AudioClip_Duration c * ucast outSampleRate) 1000\<rparr>
          in case rd_Start E (m_srcReader c) of (started, r3) \<Rightarrow>
            if \<not> started then Inl (runtime_error (rd_GetError E r3))
            else Inr (c\<lparr>m_srcReader := r3\<rparr>))"

text \<open>
  \<^verbatim>\<open>ReadPos\<close> divides by the output sample rate; a rate of 0 traps (\<open>None\<close>).
\<close>

definition AudioClip_ReadPos ::
  "('p, 'r, 'ts) collaborators \<Rightarrow> ('r, 'ts) AudioClip \<Rightarrow> int64_t option" where
  "AudioClip_ReadPos E c =
   (let rate = rd_GetAudioOutSampleRate E (m_srcReader c)
    in if rate = 0 then None
       else Some (sdiv64 (m_readSamples c * 1000) (ucast rate) + m_start c))"

definition AudioClip_LeftSamples ::
  "('p, 'r, 'ts) collaborators \<Rightarrow> ('r, 'ts) AudioClip \<Rightarrow> uint32_t" where
  "AudioClip_LeftSamples E c =
   (let isForward = rd_IsDirectionForward E (m_srcReader c)
    in if isForward
       then (if m_readSamples c <s m_totalSamples c
             then ucast (m_totalSamples c - m_readSamples c) else 0)
       else (if m_totalSamples c <s m_readSamples c then 0
             else (if 0 \<le>s m_readSamples c then ucast (m_readSamples c) else 0)))"

definition AudioClip_SetTrackId :: "int64_t \<Rightarrow> ('r, 'ts) AudioClip \<Rightarrow> ('r, 'ts) AudioClip" where
  "AudioClip_SetTrackId trackId c = c\<lparr>m_trackId := trackId\<rparr>"

definition AudioClip_SetStart :: "int64_t \<Rightarrow> ('r, 'ts) AudioClip \<Rightarrow> ('r, 'ts) AudioClip" where
  "AudioClip_SetStart start c = c\<lparr>m_start := start\<rparr>"

definition AudioClip_ChangeStartOffset ::
  "('p, 'r, 'ts) collaborators \<Rightarrow> int64_t \<Rightarrow> ('r, 'ts) AudioClip \<Rightarrow> error + ('r, 'ts) AudioClip" where
  "AudioClip_ChangeStartOffset E startOffset c =
   (if startOffset = m_startOffset c then Inr c
    else if startOffset <s 0
      then Inl (invalid_argument ''Argument startOffset can NOT be NEGATIVE!'')
    else if m_srcDuration c \<le>s startOffset + m_endOffset c
      then Inl (invalid_argument
        ''Argument startOffset/endOffset, clip duration is NOT LARGER than 0!'')
    else
      let c = c\<lparr>m_startOffset := startOffset\<rparr>;
          newTotalSamples =
            sdiv64 (AudioClip_Duration c * ucast (rd_GetAudioOutSampleRate E (m_srcReader c))) 1000
      in Inr (c\<lparr>m_readSamples := m_readSamples c + (newTotalSamples - m_totalSamples c),
                m_totalSamples := newTotalSamples\<rparr>))"

definition AudioClip_ChangeEndOffset ::
  "('p, 'r, 'ts) collaborators \<Rightarrow> int64_t \<Rightarrow> ('r, 'ts) AudioClip \<Rightarrow> error + ('r, 'ts) AudioClip" where
  "AudioClip_ChangeEndOffset E endOffset c =
   (if endOffset = m_endOffset c then Inr c
    else if endOffset <s 0
      then Inl (invalid_argument ''Argument endOffset can NOT be POSITIVE!'')
    else if m_srcDuration c \<le>s m_startOffset c + endOffset
      then Inl (invalid_argument
        ''Argument startOffset/endOffset, clip duration is NOT LARGER than 0!'')
    else
      let c = c\<lparr>m_endOffset := endOffset\<rparr>
      in Inr (c\<lparr>m_totalSamples :=
            sdiv64 (AudioClip_Duration c * ucast (rd_GetAudioOutSampleRate E (m_srcReader c))) 1000\<rparr>))"

text \<open>
  \<^verbatim>\<open>SeekTo\<close> returns the exception, if any, and the clip afterwards: a failed seek of
  the reader throws after the reader has been called.
\<close>

definition AudioClip_SeekTo ::
  "('p, 'r, 'ts) collaborators \<Rightarrow> int64_t \<Rightarrow> ('r, 'ts) AudioClip \<Rightarrow>
   error option \<times> ('r, 'ts) AudioClip" where
  "AudioClip_SeekTo E pos c =
   (if pos <s 0 \<or> AudioClip_Duration c <s pos then (None, c)
    else
      let targetReadSamples =
            sdiv64 (pos * ucast (rd_GetAudioOutSampleRate E (m_srcReader c))) 1000
      in if targetReadSamples = m_readSamples c then (None, c)
         else
           let seekPos = pos + m_startOffset c;
               seekPos = (if m_srcDuration c <s seekPos then m_srcDuration c else seekPos)
           in case rd_SeekTo E seekPos (m_srcReader c) of (sought, r) \<Rightarrow>
             if \<not> sought
             then (Some (runtime_error (rd_GetError E r)), c\<lparr>m_srcReader := r\<rparr>)
             else (None, c\<lparr>m_srcReader := r, m_readSamples := targetReadSamples,
                            m_eof := False\<rparr>))"

definition AudioClip_SetDirection ::
  "('p, 'r, 'ts) collaborators \<Rightarrow> bool \<Rightarrow> ('r, 'ts) AudioClip \<Rightarrow> ('r, 'ts) AudioClip" where
  "AudioClip_SetDirection E forward c =
     c\<lparr>m_srcReader := rd_SetDirection E forward (m_srcReader c)\<rparr>"

definition AudioClip_SetFilter ::
  "'ts AudioFilter option \<Rightarrow> ('r, 'ts) AudioClip \<Rightarrow> ('r, 'ts) AudioClip" where
  "AudioClip_SetFilter filter' c = c\<lparr>m_filter := filter'\<rparr>"

text \<open>
  \<^verbatim>\<open>ReadAudioSamples(readSamples, eof)\<close>. The two reference parameters are passed in and
  returned: the result is the exception or \<open>(matrix, readSamples, eof)\<close>, and the clip
  afterwards (an exception is thrown after the clip and its reader have changed).
  The body is split at the comments of the source.
\<close>

text \<open>
  Lines 239-249: the mismatch between the reader's position and the expected one, in
  samples, and whether samples are skipped (\<open>True\<close>) or silence is returned.
\<close>

definition mismatch :: "int64_t \<Rightarrow> int64_t \<Rightarrow> uint32_t \<Rightarrow> bool \<Rightarrow> bool \<times> int64_t" where
  "mismatch sourceReadPos expectedReadPos sampleRate readForward =
   (let diffSamples = sdiv64 (abs64 (sourceReadPos - expectedReadPos) * ucast sampleRate) 1000
    in if MAX_ALLOWED_MISMATCH_SAMPLES <s diffSamples
       then (if sourceReadPos <s expectedReadPos then readForward else \<not> readForward, diffSamples)
       else (False, 0))"

text \<open>
  Lines 250-274: skip samples of the source, or build the silence matrix. The result is
  the matrix \<^verbatim>\<open>amat\<close> and the flag \<^verbatim>\<open>srcEof\<close>.
\<close>

definition compensate ::
  "('p, 'r, 'ts) collaborators \<Rightarrow> uint32_t \<Rightarrow> int64_t \<Rightarrow> bool \<Rightarrow> int64_t \<Rightarrow>
   ('r, 'ts) AudioClip \<Rightarrow> (error + ('ts ImMat \<times> bool)) \<times> ('r, 'ts) AudioClip" where
  "compensate E readSamples expectedReadPos skip diffSamples c =
   (let amat = ImMat_default E; srcEof = False
    in if 0 <s diffSamples
       then
         if skip
         then (case rd_ReadAudioSamples E (sint diffSamples) srcEof (m_srcReader c) of
                 ((ok, skipMat, srcEof), r) \<Rightarrow>
                   if \<not> ok
                   then (Inl (runtime_error (rd_GetError E r)), c\<lparr>m_srcReader := r\<rparr>)
                   else (Inr (amat, srcEof), c\<lparr>m_srcReader := r\<rparr>))
         else
           let silenceSamples =
                 (if ucast readSamples <s diffSamples then ucast readSamples else diffSamples);
               channels = rd_GetAudioOutChannels E (m_srcReader c)
           in if channels = 0 then (Inl division_by_zero, c)
              else (Inr (\<lparr>mat_w = ucast silenceSamples,
                           mat_time_stamp =
                             fp_ms_to_ts E (expectedReadPos - m_startOffset c + m_start c)\<rparr>,
                         srcEof), c)
       else (Inr (amat, srcEof), c))"

text \<open>Lines 276-290: read from the source unless silence is returned.\<close>

definition read_from_source ::
  "('p, 'r, 'ts) collaborators \<Rightarrow> uint32_t \<Rightarrow> int64_t \<Rightarrow> 'ts ImMat \<Rightarrow> bool \<Rightarrow>
   ('r, 'ts) AudioClip \<Rightarrow> (error + ('ts ImMat \<times> bool)) \<times> ('r, 'ts) AudioClip" where
  "read_from_source E readSamples expectedReadPos amat srcEof c =
   (if \<not> m_eof c \<and> ImMat_empty amat
    then (case rd_ReadAudioSamples E (uint readSamples) srcEof (m_srcReader c) of
            ((ok, amat, srcEof), r) \<Rightarrow>
              if \<not> ok
              then (Inl (runtime_error (rd_GetError E r)), c\<lparr>m_srcReader := r\<rparr>)
              else (Inr (amat\<lparr>mat_time_stamp :=
                                 fp_ms_to_ts E (expectedReadPos - m_startOffset c + m_start c)\<rparr>,
                         srcEof), c\<lparr>m_srcReader := r\<rparr>))
    else (Inr (amat, srcEof), c))"

text \<open>Lines 292-308: the state update, the end-of-stream flags and the filter.\<close>

definition state_update ::
  "('p, 'r, 'ts) collaborators \<Rightarrow> bool \<Rightarrow> bool \<Rightarrow> 'ts ImMat \<Rightarrow> bool \<Rightarrow>
   ('r, 'ts) AudioClip \<Rightarrow> ('ts ImMat \<times> uint32_t \<times> bool) \<times> ('r, 'ts) AudioClip" where
  "state_update E readForward eof amat srcEof c =
   (let (readSamples, c) =
          (if \<not> ImMat_empty amat
           then (mat_w amat,
                 c\<lparr>m_readSamples := m_readSamples c +
                      (if readForward then ucast (mat_w amat) else - ucast (mat_w amat))\<rparr>)
           else (0, c));
        leftSamples2 = AudioClip_LeftSamples E c;
        (eof, c) = (if leftSamples2 = 0 \<or> srcEof then (True, c\<lparr>m_eof := True\<rparr>) else (eof, c));
        amat = (case m_filter c of
                  Some filterPcm \<Rightarrow>
                    if 0 < readSamples
                    then filterPcm amat (fp_ts_to_ms E (mat_time_stamp amat) - m_start c)
                           (AudioClip_Duration c)
                    else amat
                | None \<Rightarrow> amat)
    in ((amat, readSamples, eof), c))"

text \<open>Lines 250-308 together: compensate, read, update.\<close>

definition read_and_update ::
  "('p, 'r, 'ts) collaborators \<Rightarrow> uint32_t \<Rightarrow> bool \<Rightarrow> int64_t \<Rightarrow> bool \<Rightarrow> bool \<Rightarrow> int64_t \<Rightarrow>
   ('r, 'ts) AudioClip \<Rightarrow> (error + ('ts ImMat \<times> uint32_t \<times> bool)) \<times> ('r, 'ts) AudioClip" where
  "read_and_update E readSamples eof expectedReadPos readForward skip diffSamples c =
   (case compensate E readSamples expectedReadPos skip diffSamples c of
      (Inl e, c) \<Rightarrow> (Inl e, c)
    | (Inr (amat, srcEof), c) \<Rightarrow>
        (case read_from_source E readSamples expectedReadPos amat srcEof c of
           (Inl e, c) \<Rightarrow> (Inl e, c)
         | (Inr (amat, srcEof), c) \<Rightarrow>
             (case state_update E readForward eof amat srcEof c of
                (res, c) \<Rightarrow> (Inr res, c))))"

text \<open>Lines 225-226 and 230-235: the frame size is fetched once, and the first read seeks.\<close>

definition fetch_pcmFrameSize ::
  "('p, 'r, 'ts) collaborators \<Rightarrow> ('r, 'ts) AudioClip \<Rightarrow> ('r, 'ts) AudioClip" where
  "fetch_pcmFrameSize E c =
   (if m_pcmFrameSize c = 0
    then c\<lparr>m_pcmFrameSize := rd_GetAudioOutFrameSize E (m_srcReader c)\<rparr>
    else c)"

definition init_seek ::
  "('p, 'r, 'ts) collaborators \<Rightarrow> int64_t \<Rightarrow> ('r, 'ts) AudioClip \<Rightarrow> ('r, 'ts) AudioClip" where
  "init_seek E expectedReadPos c =
   (if \<not> m_initSeek c
    then (if 1000 <s expectedReadPos
          then c\<lparr>m_srcReader := snd (rd_SeekTo E expectedReadPos (m_srcReader c))\<rparr>
          else c)\<lparr>m_initSeek := True\<rparr>
    else c)"

definition AudioClip_ReadAudioSamples ::
  "('p, 'r, 'ts) collaborators \<Rightarrow> uint32_t \<Rightarrow> bool \<Rightarrow> ('r, 'ts) AudioClip \<Rightarrow>
   (error + ('ts ImMat \<times> uint32_t \<times> bool)) \<times> ('r, 'ts) AudioClip" where
  "AudioClip_ReadAudioSamples E readSamples eof c =
   (let leftSamples = AudioClip_LeftSamples E c
    in if m_eof c \<or> leftSamples = 0
       then (Inr (ImMat_default E, 0, True), c\<lparr>m_eof := True\<rparr>)
       else
         let readSamples = (if leftSamples < readSamples then leftSamples else readSamples);
             sampleRate = rd_GetAudioOutSampleRate E (m_srcReader c);
             c = fetch_pcmFrameSize E c;
             expectedReadPos = fp_samples_to_ms E (m_readSamples c) sampleRate + m_startOffset c;
             c = init_seek E expectedReadPos c;
             sourceReadPos = rd_GetReadPos E (m_srcReader c);
             readForward = rd_IsDirectionForward E (m_srcReader c);
             (skip, diffSamples) = mismatch sourceReadPos expectedReadPos sampleRate readForward
         in read_and_update E readSamples eof expectedReadPos readForward skip diffSamples c)"

section \<open>AudioTransition and AudioOverlap\<close>

text \<open>A transition is its \<^verbatim>\<open>MixTwoAudioMats\<close> function; the default one returns the second matrix.\<close>

type_synonym 'ts AudioTransition = "'ts ImMat \<Rightarrow> 'ts ImMat \<Rightarrow> int64_t \<Rightarrow> 'ts ImMat"

definition DefaultAudioTransition_MixTwoAudioMats :: "'ts AudioTransition" where
  "DefaultAudioTransition_MixTwoAudioMats amat1 amat2 pos = amat2"

text \<open>
  The fields of \<^verbatim>\<open>AudioOverlap_Impl\<close> (prefixed \<open>ov_\<close>, the clip has fields of the same
  names). The overlap holds its two clips by handle; the record holds the clips as they
  are when the overlap's function is called, and the two handles are taken to be two
  different clips.
\<close>

record ('r, 'ts) AudioOverlap =
  ov_id :: int64_t
  ov_frontClip :: "('r, 'ts) AudioClip"
  ov_rearClip :: "('r, 'ts) AudioClip"
  ov_start :: int64_t
  ov_end :: int64_t
  ov_transition :: "'ts AudioTransition"

definition AudioOverlap_Update :: "('r, 'ts) AudioOverlap \<Rightarrow> ('r, 'ts) AudioOverlap" where
  "AudioOverlap_Update ov =
   (let hClip1 = ov_frontClip ov; hClip2 = ov_rearClip ov;
        ov = (if AudioClip_Start hClip1 \<le>s AudioClip_Start hClip2
              then ov\<lparr>ov_frontClip := hClip1, ov_rearClip := hClip2\<rparr>
              else ov\<lparr>ov_frontClip := hClip2, ov_rearClip := hClip1\<rparr>)
    in if AudioClip_End (ov_frontClip ov) \<le>s AudioClip_Start (ov_rearClip ov)
       then ov\<lparr>ov_start := 0, ov_end := 0\<rparr>
       else ov\<lparr>ov_start := AudioClip_Start (ov_rearClip ov),
                ov_end := (if AudioClip_End (ov_frontClip ov) \<le>s AudioClip_End (ov_rearClip ov)
                           then AudioClip_End (ov_frontClip ov)
                           else AudioClip_End (ov_rearClip ov))\<rparr>)"

definition AudioOverlap_new ::
  "int64_t \<Rightarrow> ('r, 'ts) AudioClip \<Rightarrow> ('r, 'ts) AudioClip \<Rightarrow> ('r, 'ts) AudioOverlap" where
  "AudioOverlap_new ident hClip1 hClip2 =
     AudioOverlap_Update \<lparr>ov_id = ident, ov_frontClip = hClip1, ov_rearClip = hClip2,
       ov_start = 0, ov_end = 0, ov_transition = DefaultAudioTransition_MixTwoAudioMats\<rparr>"

definition AudioOverlap_Duration :: "('r, 'ts) AudioOverlap \<Rightarrow> int64_t" where
  "AudioOverlap_Duration ov = ov_end ov - ov_start ov"

definition AudioOverlap_ReadAudioSamples ::
  "('p, 'r, 'ts) collaborators \<Rightarrow> uint32_t \<Rightarrow> bool \<Rightarrow> ('r, 'ts) AudioOverlap \<Rightarrow>
   (error + ('ts ImMat \<times> uint32_t \<times> bool)) \<times> ('r, 'ts) AudioOverlap" where
  "AudioOverlap_ReadAudioSamples E readSamples eof ov =
   (let leftSamples1 = AudioClip_LeftSamples E (ov_frontClip ov);
        readSamples = (if leftSamples1 < readSamples then leftSamples1 else readSamples);
        leftSamples2 = AudioClip_LeftSamples E (ov_rearClip ov);
        readSamples = (if leftSamples2 < readSamples then leftSamples2 else readSamples)
    in if readSamples = 0 then (Inr (ImMat_default E, readSamples, True), ov)
       else
         case AudioClip_ReadAudioSamples E readSamples False (ov_frontClip ov) of
           (Inl e, front) \<Rightarrow> (Inl e, ov\<lparr>ov_frontClip := front\<rparr>)
         | (Inr (amat1, readSamples, eof1), front) \<Rightarrow>
             (case AudioClip_ReadAudioSamples E readSamples False (ov_rearClip ov) of
                (Inl e, rear) \<Rightarrow> (Inl e, ov\<lparr>ov_frontClip := front, ov_rearClip := rear\<rparr>)
              | (Inr (amat2, readSamples, eof2), rear) \<Rightarrow>
                  (Inr (ov_transition ov amat1 amat2 (fp_ts_to_ms E (mat_time_stamp amat1)),
                        readSamples, eof1 \<or> eof2),
                   ov\<lparr>ov_frontClip := front, ov_rearClip := rear\<rparr>)))"

text \<open>\<^verbatim>\<open>AudioOverlap::HasOverlap\<close>, a static function of two clips.\<close>

definition HasOverlap :: "('r, 'ts) AudioClip \<Rightarrow> ('r, 'ts) AudioClip \<Rightarrow> bool" where
  "HasOverlap hClip1 hClip2 \<longleftrightarrow>
     (AudioClip_Start hClip2 \<le>s AudioClip_Start hClip1 \<and> AudioClip_Start hClip1 <s AudioClip_End hClip2) \<or>
     (AudioClip_Start hClip2 <s AudioClip_End hClip1 \<and> AudioClip_End hClip1 \<le>s AudioClip_End hClip2) \<or>
     (AudioClip_Start hClip1 <s AudioClip_Start hClip2 \<and> AudioClip_End hClip2 <s AudioClip_End hClip1)"

section \<open>Reachable clips\<close>

text \<open>
  One call of a public function of the clip that can change it. A call that throws
  still leaves the clip it has changed.
\<close>

inductive clip_step ::
  "('p, 'r, 'ts) collaborators \<Rightarrow> ('r, 'ts) AudioClip \<Rightarrow> ('r, 'ts) AudioClip \<Rightarrow> bool"
  for E :: "('p, 'r, 'ts) collaborators" where
  step_SetTrackId: "clip_step E c (AudioClip_SetTrackId trackId c)"
| step_SetStart: "clip_step E c (AudioClip_SetStart start c)"
| step_ChangeStartOffset:
    "AudioClip_ChangeStartOffset E startOffset c = Inr c' \<Longrightarrow> clip_step E c c'"
| step_ChangeEndOffset:
    "AudioClip_ChangeEndOffset E endOffset c = Inr c' \<Longrightarrow> clip_step E c c'"
| step_SeekTo: "clip_step E c (snd (AudioClip_SeekTo E pos c))"
| step_ReadAudioSamples: "clip_step E c (snd (AudioClip_ReadAudioSamples E readSamples eof c))"
| step_SetDirection: "clip_step E c (AudioClip_SetDirection E forward c)"
| step_SetFilter: "clip_step E c (AudioClip_SetFilter filter' c)"

section \<open>A simulated source for the concrete instances\<close>

text \<open>
  The concrete instances below run the model on a simulated parser and reader. The
  source has \<open>sp_duration\<close> milliseconds of audio whose first sample carries the
  timestamp \<open>sp_first_pts\<close>; the reader keeps its position in output samples, delivers
  what it is asked for up to the end of the source, and records every seek it receives.
  Timestamps are kept in milliseconds, and \<^verbatim>\<open>(int64_t)((double)n/rate*1000)\<close> is the
  integer quotient.
\<close>

record sim_parser =
  sp_audio_index :: c_int
  sp_duration :: int64_t
  sp_first_pts :: int64_t

record sim_reader =
  sr_duration :: int64_t
  sr_first_pts :: int64_t
  sr_rate :: uint32_t
  sr_channels :: uint32_t
  sr_pos :: int64_t
  sr_forward :: bool
  sr_seeks :: "int64_t list"

definition sim_read :: "int \<Rightarrow> bool \<Rightarrow> sim_reader \<Rightarrow> (bool \<times> int64_t ImMat \<times> bool) \<times> sim_reader" where
  "sim_read n eof r =
   (let len = sdiv64 (sr_duration r * ucast (sr_rate r)) 1000;
        avail = (if sr_forward r then sint (len - sr_pos r) else sint (sr_pos r));
        k = max 0 (min n avail)
    in ((True, \<lparr>mat_w = word_of_int k, mat_time_stamp = 0\<rparr>, k < n),
        r\<lparr>sr_pos := (if sr_forward r then sr_pos r + word_of_int k else sr_pos r - word_of_int k)\<rparr>))"

definition sim :: "(sim_parser, sim_reader, int64_t) collaborators" where
  "sim = \<lparr>
     ps_GetBestAudioStreamIndex = sp_audio_index,
     rd_CreateInstance = \<lparr>sr_duration = 0, sr_first_pts = 0, sr_rate = 0, sr_channels = 0,
                           sr_pos = 0, sr_forward = True, sr_seeks = []\<rparr>,
     rd_Open = (\<lambda>p r. (True, r\<lparr>sr_duration := sp_duration p, sr_first_pts := sp_first_pts p\<rparr>)),
     rd_ConfigAudioReader = (\<lambda>channels rate fmt r. (True, r\<lparr>sr_rate := rate, sr_channels := channels\<rparr>)),
     rd_Start = (\<lambda>r. (True, r)),
     rd_GetError = (\<lambda>r. []),
     rd_duration_ms = sr_duration,
     rd_SeekTo = (\<lambda>pos r. (True, r\<lparr>sr_pos := sdiv64 (pos * ucast (sr_rate r)) 1000,
                                      sr_seeks := sr_seeks r @ [pos]\<rparr>)),
     rd_ReadAudioSamples = sim_read,
     rd_GetReadPos = (\<lambda>r. sr_first_pts r + sdiv64 (sr_pos r * 1000) (ucast (sr_rate r))),
     rd_IsDirectionForward = sr_forward,
     rd_SetDirection = (\<lambda>forward r. r\<lparr>sr_forward := forward\<rparr>),
     rd_GetAudioOutSampleRate = sr_rate,
     rd_GetAudioOutChannels = sr_channels,
     rd_GetAudioOutFrameSize = (\<lambda>r. 4 * sr_channels r),
     fp_samples_to_ms = (\<lambda>n rate. sdiv64 (n * 1000) (ucast rate)),
     fp_ms_to_ts = (\<lambda>ms. ms),
     fp_ts_to_ms = (\<lambda>ts. ts),
     fp_default_ts = 0\<rparr>"

text \<open>
  The clip of the spec's scenario: a source of 5000 ms, the timeline span [0, 5000),
  no offsets, two channels at 48000 Hz.
\<close>

definition sim_reader_5000 :: sim_reader where
  "sim_reader_5000 = \<lparr>sr_duration = 5000, sr_first_pts = 0, sr_rate = 48000, sr_channels = 2,
                       sr_pos = 0, sr_forward = True, sr_seeks = []\<rparr>"

definition clip_5000 :: "(sim_reader, int64_t) AudioClip" where
  "clip_5000 = \<lparr>m_id = 1, m_trackId = - 1, m_srcReader = sim_reader_5000, m_filter = None,
                 m_srcDuration = 5000, m_start = 0, m_startOffset = 0, m_endOffset = 0,
                 m_padding = 0, m_pcmFrameSize = 0, m_readSamples = 0, m_totalSamples = 240000,
                 m_eof = False, m_initSeek = False\<rparr>"

text \<open>The simulated parser of that source.\<close>

definition sim_parser_5000 :: sim_parser where
  "sim_parser_5000 = \<lparr>sp_audio_index = 0, sp_duration = 5000, sp_first_pts = 0\<rparr>"

text \<open>The same clip after \<^verbatim>\<open>ChangeStartOffset(1000)\<close>.\<close>

definition clip_5000_trimmed :: "(sim_reader, int64_t) AudioClip" where
  "clip_5000_trimmed = clip_5000\<lparr>m_startOffset := 1000, m_readSamples := - 48000,
                                  m_totalSamples := 192000\<rparr>"

text \<open>The two fields that no function of the clip assigns after the constructor.\<close>

definition fixed_fields :: "('r, 'ts) AudioClip \<Rightarrow> int64_t \<times> int64_t" where
  "fixed_fields c = (m_srcDuration c, m_padding c)"

text \<open>The same clip after all its 240000 samples have been read: it is at its end.\<close>

definition clip_5000_at_eof :: "(sim_reader, int64_t) AudioClip" where
  "clip_5000_at_eof = clip_5000\<lparr>m_srcReader := sim_reader_5000\<lparr>sr_pos := 240000\<rparr>,
      m_pcmFrameSize := 8, m_readSamples := 240000, m_eof := True, m_initSeek := True\<rparr>"

text \<open>Maximum and minimum in the signed order of \<^verbatim>\<open>int64_t\<close>.\<close>

definition smax64 :: "int64_t \<Rightarrow> int64_t \<Rightarrow> int64_t" where
  "smax64 a b = (if a \<le>s b then b else a)"

definition smin64 :: "int64_t \<Rightarrow> int64_t \<Rightarrow> int64_t" where
  "smin64 a b = (if a \<le>s b then a else b)"

text \<open>
  The timeline ranges \<open>[Start, End)\<close> of two clips intersect: the later start lies
  before the earlier end.
\<close>

definition ranges_intersect :: "('r, 'ts) AudioClip \<Rightarrow> ('r, 'ts) AudioClip \<Rightarrow> bool" where
  "ranges_intersect a b \<longleftrightarrow>
     smax64 (AudioClip_Start a) (AudioClip_Start b) <s smin64 (AudioClip_End a) (AudioClip_End b)"

text \<open>
  The overlap predicate in the words of the spec: either one's start falls within the
  other's \<open>[start, end)\<close>, or either one's end falls within the other's \<open>(start, end]\<close>,
  or one fully contains the other.
\<close>

definition spec_overlap :: "('r, 'ts) AudioClip \<Rightarrow> ('r, 'ts) AudioClip \<Rightarrow> bool" where
  "spec_overlap a b \<longleftrightarrow>
     (AudioClip_Start b \<le>s AudioClip_Start a \<and> AudioClip_Start a <s AudioClip_End b) \<or>
     (AudioClip_Start a \<le>s AudioClip_Start b \<and> AudioClip_Start b <s AudioClip_End a) \<or>
     (AudioClip_Start b <s AudioClip_End a \<and> AudioClip_End a \<le>s AudioClip_End b) \<or>
     (AudioClip_Start a <s AudioClip_End b \<and> AudioClip_End b \<le>s AudioClip_End a) \<or>
     (AudioClip_Start a \<le>s AudioClip_Start b \<and> AudioClip_End b \<le>s AudioClip_End a) \<or>
     (AudioClip_Start b \<le>s AudioClip_Start a \<and> AudioClip_End a \<le>s AudioClip_End b)"

text \<open>The invariant of the spec on the two offsets.\<close>

definition offsets_invariant :: "('r, 'ts) AudioClip \<Rightarrow> bool" where
  "offsets_invariant c \<longleftrightarrow> m_startOffset c + m_endOffset c <s m_srcDuration c"

text \<open>The second clip of the spec's scenario: the same source on the span [3000, 8000).\<close>

definition clip_3000_8000 :: "(sim_reader, int64_t) AudioClip" where
  "clip_3000_8000 = clip_5000\<lparr>m_id := 2, m_start := 3000\<rparr>"

text \<open>
  A clip of the span [1000, 2000) on the same source: the padding is negative. After
  \<^verbatim>\<open>ChangeStartOffset(2000)\<close> its duration is -1000.
\<close>

definition clip_short :: "(sim_reader, int64_t) AudioClip" where
  "clip_short = clip_5000\<lparr>m_id := 3, m_start := 1000, m_padding := - 4000,
                           m_totalSamples := 48000\<rparr>"

definition clip_short_trimmed :: "(sim_reader, int64_t) AudioClip" where
  "clip_short_trimmed = clip_short\<lparr>m_startOffset := 2000, m_readSamples := - 96000,
                                    m_totalSamples := - 48000\<rparr>"

text \<open>A clip of the span [0, 1000) whose offsets, 3000 and 3000, exceed the source.\<close>

definition clip_offsets_6000 :: "(sim_reader, int64_t) AudioClip" where
  "clip_offsets_6000 = clip_5000\<lparr>m_id := 4, m_startOffset := 3000, m_endOffset := 3000,
                                  m_padding := 2000, m_totalSamples := 48000\<rparr>"

text \<open>The clip at its end, turned to read in reverse, and then trimmed by 1000 ms.\<close>

definition clip_5000_reverse :: "(sim_reader, int64_t) AudioClip" where
  "clip_5000_reverse =
     clip_5000_at_eof\<lparr>m_srcReader := sim_reader_5000\<lparr>sr_pos := 240000, sr_forward := False\<rparr>\<rparr>"

definition clip_5000_reverse_trimmed :: "(sim_reader, int64_t) AudioClip" where
  "clip_5000_reverse_trimmed =
     clip_5000_reverse\<lparr>m_startOffset := 1000, m_readSamples := 192000, m_totalSamples := 192000\<rparr>"

text \<open>The clip of the spec's scenario after \<^verbatim>\<open>SeekTo(1000)\<close>.\<close>

definition clip_5000_sought :: "(sim_reader, int64_t) AudioClip" where
  "clip_5000_sought =
     clip_5000\<lparr>m_srcReader := sim_reader_5000\<lparr>sr_pos := 48000, sr_seeks := [1000]\<rparr>,
               m_readSamples := 48000\<rparr>"

text \<open>The same source and span at 44100 Hz, and that clip after \<^verbatim>\<open>SeekTo(1)\<close>.\<close>

definition sim_reader_44100 :: sim_reader where
  "sim_reader_44100 = sim_reader_5000\<lparr>sr_rate := 44100\<rparr>"

definition clip_44100 :: "(sim_reader, int64_t) AudioClip" where
  "clip_44100 = clip_5000\<lparr>m_id := 5, m_srcReader := sim_reader_44100, m_totalSamples := 220500\<rparr>"

definition clip_44100_sought :: "(sim_reader, int64_t) AudioClip" where
  "clip_44100_sought =
     clip_44100\<lparr>m_srcReader := sim_reader_44100\<lparr>sr_pos := 44, sr_seeks := [1]\<rparr>,
                m_readSamples := 44\<rparr>"

section \<open>What the claims assume of the source session\<close>

text \<open>
  The reader session is not part of the source file. The properties of
  \<^verbatim>\<open>ReadAudioSamples\<close> below are stated for sessions that keep the contracts named here.
  \<^item> The session never delivers more frames than the count it is asked for.
  \<^item> Seeking and reading do not change the reading direction.
\<close>

definition reader_delivers_at_most :: "('p, 'r, 'ts) collaborators \<Rightarrow> bool" where
  "reader_delivers_at_most E \<longleftrightarrow>
     (\<forall>n eof r. 0 \<le> n \<longrightarrow> uint (mat_w (fst (snd (fst (rd_ReadAudioSamples E n eof r))))) \<le> n)"

definition reader_keeps_direction :: "('p, 'r, 'ts) collaborators \<Rightarrow> bool" where
  "reader_keeps_direction E \<longleftrightarrow>
     (\<forall>pos r. rd_IsDirectionForward E (snd (rd_SeekTo E pos r)) = rd_IsDirectionForward E r) \<and>
     (\<forall>n eof r. rd_IsDirectionForward E (snd (rd_ReadAudioSamples E n eof r))
                  = rd_IsDirectionForward E r)"

text \<open>
  The mismatch that \<^verbatim>\<open>ReadAudioSamples\<close> computes for a clip (lines 223-249), and whether
  it makes the call return silence.
\<close>

definition read_drift ::
  "('p, 'r, 'ts) collaborators \<Rightarrow> ('r, 'ts) AudioClip \<Rightarrow> bool \<times> int64_t" where
  "read_drift E c =
   (let sampleRate = rd_GetAudioOutSampleRate E (m_srcReader c);
        c = fetch_pcmFrameSize E c;
        expectedReadPos = fp_samples_to_ms E (m_readSamples c) sampleRate + m_startOffset c;
        c = init_seek E expectedReadPos c
    in mismatch (rd_GetReadPos E (m_srcReader c)) expectedReadPos sampleRate
         (rd_IsDirectionForward E (m_srcReader c)))"

definition silence_backfilled :: "('p, 'r, 'ts) collaborators \<Rightarrow> ('r, 'ts) AudioClip \<Rightarrow> bool" where
  "silence_backfilled E c \<longleftrightarrow> (case read_drift E c of (skip, diffSamples) \<Rightarrow>
     0 <s diffSamples \<and> \<not> skip)"

text \<open>
  The read of the source at line 280, as one call \<^verbatim>\<open>ReadAudioSamples(readSamples, eof)\<close>
  on a clip makes it: the count, the flag \<^verbatim>\<open>srcEof\<close> and the state of the reader session
  that the read is called with. It is \<open>None\<close> when the call does not reach that read: the
  call returns at line 218, it throws before, or it returns silence. (The lines before
  line 280 do not use \<^verbatim>\<open>eof\<close>.)
\<close>

definition source_read_args ::
  "('p, 'r, 'ts) collaborators \<Rightarrow> uint32_t \<Rightarrow> ('r, 'ts) AudioClip \<Rightarrow> (int \<times> bool \<times> 'r) option" where
  "source_read_args E readSamples c =
   (let leftSamples = AudioClip_LeftSamples E c
    in if m_eof c \<or> leftSamples = 0 then None
       else
         let readSamples = (if leftSamples < readSamples then leftSamples else readSamples);
             sampleRate = rd_GetAudioOutSampleRate E (m_srcReader c);
             c = fetch_pcmFrameSize E c;
             expectedReadPos = fp_samples_to_ms E (m_readSamples c) sampleRate + m_startOffset c;
             c = init_seek E expectedReadPos c;
             sourceReadPos = rd_GetReadPos E (m_srcReader c);
             readForward = rd_IsDirectionForward E (m_srcReader c);
             (skip, diffSamples) = mismatch sourceReadPos expectedReadPos sampleRate readForward
         in case compensate E readSamples expectedReadPos skip diffSamples c of
              (Inl e, c) \<Rightarrow> None
            | (Inr (amat, srcEof), c) \<Rightarrow>
                if \<not> m_eof c \<and> ImMat_empty amat
                then Some (uint readSamples, srcEof, m_srcReader c)
                else None)"

text \<open>
  In that one call, the source delivers every frame it is asked for at line 280; and in
  that one call, the source reports the end of the stream: the read at line 280 leaves
  \<^verbatim>\<open>srcEof\<close> set.
\<close>

definition source_delivers_all_asked ::
  "('p, 'r, 'ts) collaborators \<Rightarrow> uint32_t \<Rightarrow> ('r, 'ts) AudioClip \<Rightarrow> bool" where
  "source_delivers_all_asked E readSamples c \<longleftrightarrow>
     (case source_read_args E readSamples c of
        None \<Rightarrow> True
      | Some (count, srcEof, r) \<Rightarrow>
          mat_w (fst (snd (fst (rd_ReadAudioSamples E count srcEof r)))) = word_of_int count)"

definition source_reports_eof ::
  "('p, 'r, 'ts) collaborators \<Rightarrow> uint32_t \<Rightarrow> ('r, 'ts) AudioClip \<Rightarrow> bool" where
  "source_reports_eof E readSamples c \<longleftrightarrow>
     (case source_read_args E readSamples c of
        None \<Rightarrow> False
      | Some (count, srcEof, r) \<Rightarrow> snd (snd (fst (rd_ReadAudioSamples E count srcEof r))))"

section \<open>More simulated sources\<close>

text \<open>
  A source whose first audio sample carries the timestamp 10 ms: a reader session
  opened on it reports the position 10 before anything is read. The clip on it, and that
  clip after one call of \<^verbatim>\<open>ReadAudioSamples\<close>.
\<close>

definition sim_parser_late :: sim_parser where
  "sim_parser_late = \<lparr>sp_audio_index = 0, sp_duration = 5000, sp_first_pts = 10\<rparr>"

definition clip_late :: "(sim_reader, int64_t) AudioClip" where
  "clip_late = clip_5000\<lparr>m_id := 6, m_srcReader := sim_reader_5000\<lparr>sr_first_pts := 10\<rparr>\<rparr>"

definition clip_late_read :: "(sim_reader, int64_t) AudioClip" where
  "clip_late_read = clip_late\<lparr>m_pcmFrameSize := 8, m_readSamples := 480, m_initSeek := True\<rparr>"

text \<open>
  The count that \<^verbatim>\<open>AudioOverlap_Impl::ReadAudioSamples\<close> passes to the front clip: the
  requested count clamped to what is left in either clip (lines 511-516).
\<close>

definition overlap_clamped_count ::
  "('p, 'r, 'ts) collaborators \<Rightarrow> uint32_t \<Rightarrow> ('r, 'ts) AudioOverlap \<Rightarrow> uint32_t" where
  "overlap_clamped_count E readSamples ov =
   (let leftSamples1 = AudioClip_LeftSamples E (ov_frontClip ov);
        readSamples = (if leftSamples1 < readSamples then leftSamples1 else readSamples);
        leftSamples2 = AudioClip_LeftSamples E (ov_rearClip ov)
    in if leftSamples2 < readSamples then leftSamples2 else readSamples)"

text \<open>
  The overlap of the clip on the late source (front) and the clip [3000, 8000) (rear),
  and the rear clip after it has delivered 480 samples.
\<close>

definition overlap_late :: "(sim_reader, int64_t) AudioOverlap" where
  "overlap_late = \<lparr>ov_id = 1, ov_frontClip = clip_late, ov_rearClip = clip_3000_8000,
     ov_start = 3000, ov_end = 5000, ov_transition = DefaultAudioTransition_MixTwoAudioMats\<rparr>"

definition clip_3000_8000_read :: "(sim_reader, int64_t) AudioClip" where
  "clip_3000_8000_read =
     clip_3000_8000\<lparr>m_srcReader := sim_reader_5000\<lparr>sr_pos := 480\<rparr>, m_pcmFrameSize := 8,
                     m_readSamples := 480, m_initSeek := True\<rparr>"

section \<open>Properties\<close>

subsection \<open>Evaluation of the machine arithmetic\<close>

lemmas signed_compare = word_sless_alt word_sle_eq

lemmas machine_eval = sdiv64_def abs64_def signed_divide_int_def signed_compare

subsection \<open>The source duration and the padding are fixed at construction\<close>

lemma compensate_fixed:
  "fixed_fields (snd (compensate E n ex sk d c)) = fixed_fields c"
  by (simp add: compensate_def fixed_fields_def Let_def split: prod.splits)

lemma read_from_source_fixed:
  "fixed_fields (snd (read_from_source E n ex amat se c)) = fixed_fields c"
  by (simp add: read_from_source_def fixed_fields_def Let_def split: prod.splits)

lemma state_update_fixed:
  "fixed_fields (snd (state_update E fw eof amat se c)) = fixed_fields c"
  by (simp add: state_update_def fixed_fields_def Let_def split: prod.splits)

lemma read_and_update_fixed:
  "fixed_fields (snd (read_and_update E n eof ex fw sk d c)) = fixed_fields c"
proof -
  obtain x1 c1 where 1: "compensate E n ex sk d c = (x1, c1)" by fastforce
  have f1: "fixed_fields c1 = fixed_fields c"
    using compensate_fixed [of E n ex sk d c] 1 by simp
  show ?thesis
  proof (cases x1)
    case (Inl e)
    then show ?thesis using 1 f1 by (simp add: read_and_update_def)
  next
    case (Inr p)
    obtain amat se where p: "p = (amat, se)" by fastforce
    obtain x2 c2 where 2: "read_from_source E n ex amat se c1 = (x2, c2)" by fastforce
    have f2: "fixed_fields c2 = fixed_fields c1"
      using read_from_source_fixed [of E n ex amat se c1] 2 by simp
    show ?thesis
    proof (cases x2)
      case (Inl e)
      then show ?thesis using 1 2 Inr p f1 f2 by (simp add: read_and_update_def)
    next
      case (Inr q)
      obtain amat2 se2 where q: "q = (amat2, se2)" by fastforce
      have "fixed_fields (snd (state_update E fw eof amat2 se2 c2)) = fixed_fields c2"
        by (rule state_update_fixed)
      then show ?thesis using 1 2 \<open>x1 = Inr p\<close> Inr p q f1 f2
        by (auto simp add: read_and_update_def split: prod.splits)
    qed
  qed
qed

lemma prepare_fixed:
  "fixed_fields (fetch_pcmFrameSize E c) = fixed_fields c"
  "fixed_fields (init_seek E ex c) = fixed_fields c"
  by (simp_all add: fetch_pcmFrameSize_def init_seek_def fixed_fields_def)

lemma ReadAudioSamples_fixed:
  "fixed_fields (snd (AudioClip_ReadAudioSamples E n eof c)) = fixed_fields c"
  unfolding AudioClip_ReadAudioSamples_def Let_def
  by (simp add: read_and_update_fixed prepare_fixed split: prod.split) (simp add: fixed_fields_def)

lemma clip_step_fixed:
  "clip_step E c c' \<Longrightarrow> fixed_fields c' = fixed_fields c"
proof (induction rule: clip_step.induct)
  case (step_ReadAudioSamples c readSamples eof)
  then show ?case by (rule ReadAudioSamples_fixed)
qed (auto simp: fixed_fields_def AudioClip_SetTrackId_def AudioClip_SetStart_def
      AudioClip_ChangeStartOffset_def AudioClip_ChangeEndOffset_def AudioClip_SeekTo_def
      AudioClip_SetDirection_def AudioClip_SetFilter_def Let_def split: if_splits prod.splits)

lemma clip_steps_fixed:
  "(clip_step E)\<^sup>*\<^sup>* c c' \<Longrightarrow> fixed_fields c' = fixed_fields c"
  by (induction rule: rtranclp_induct) (auto dest: clip_step_fixed)

lemma new_fields:
  assumes "AudioClip_new E ident hParser outChannels outSampleRate outSampleFormat start end' startOffset endOffset = Inr c0"
  shows "m_padding c0 = (end' - start) + startOffset + endOffset - m_srcDuration c0"
    and "m_startOffset c0 = startOffset" and "m_endOffset c0 = endOffset" and "m_start c0 = start"
    and "\<not> startOffset <s 0" and "\<not> endOffset <s 0" and "start <s end'"
  using assms
  by (auto simp: AudioClip_new_def AudioClip_Duration_def Let_def signed.not_le split: if_splits prod.splits)

text \<open>
  C1. A clip constructed successfully has \<open>Duration() = end - start\<close>; in that clip and
  in every clip reached from it by calls of its functions, the source duration and the
  padding are those of the construction, the padding is
  \<open>(end - start) + startOffset + endOffset - sourceDuration\<close>, and \<open>Duration()\<close> is
  \<open>sourceDuration + padding - startOffset - endOffset\<close> for the current offsets.
\<close>

theorem Duration_after_construction_and_always:
  assumes "AudioClip_new E ident hParser outChannels outSampleRate outSampleFormat
             start end' startOffset endOffset = Inr c0"
    and "(clip_step E)\<^sup>*\<^sup>* c0 c"
  shows "AudioClip_Duration c0 = end' - start
    \<and> m_srcDuration c = m_srcDuration c0
    \<and> m_padding c = (end' - start) + startOffset + endOffset - m_srcDuration c0
    \<and> AudioClip_Duration c = m_srcDuration c0 + m_padding c - m_startOffset c - m_endOffset c"
proof -
  have "fixed_fields c = fixed_fields c0"
    using assms(2) by (rule clip_steps_fixed)
  then have f: "m_srcDuration c = m_srcDuration c0" "m_padding c = m_padding c0"
    by (simp_all add: fixed_fields_def)
  have d0: "AudioClip_Duration c0 = end' - start"
    using new_fields(1-3) [OF assms(1)] by (simp add: AudioClip_Duration_def)
  show ?thesis
    using f d0 new_fields(1) [OF assms(1)] by (simp add: AudioClip_Duration_def)
qed

lemma new_clip_5000:
  "AudioClip_new sim 1 sim_parser_5000 2 48000 ''fltp'' 0 5000 0 0 = Inr clip_5000"
  by (simp add: AudioClip_new_def sim_def clip_5000_def sim_reader_5000_def sim_parser_5000_def
      AudioClip_Duration_def machine_eval)

lemma ChangeStartOffset_clip_5000:
  "AudioClip_ChangeStartOffset sim 1000 clip_5000 = Inr clip_5000_trimmed"
  by (simp add: AudioClip_ChangeStartOffset_def sim_def clip_5000_def sim_reader_5000_def
      clip_5000_trimmed_def AudioClip_Duration_def machine_eval)

theorem Duration_after_construction_and_always_witness:
  "AudioClip_new sim 1 sim_parser_5000 2 48000 ''fltp'' 0 5000 0 0 = Inr clip_5000
   \<and> (clip_step sim)\<^sup>*\<^sup>* clip_5000 clip_5000_trimmed
   \<and> AudioClip_Duration clip_5000 = 5000
   \<and> m_padding clip_5000_trimmed = 0
   \<and> AudioClip_Duration clip_5000_trimmed = 4000"
proof -
  have s: "(clip_step sim)\<^sup>*\<^sup>* clip_5000 clip_5000_trimmed"
    using ChangeStartOffset_clip_5000 by (intro r_into_rtranclp step_ChangeStartOffset)
  show ?thesis
    using Duration_after_construction_and_always [OF new_clip_5000 s] new_clip_5000 s
    by (simp add: clip_5000_def clip_5000_trimmed_def)
qed

subsection \<open>Running \<^verbatim>\<open>ReadAudioSamples\<close> step by step\<close>

text \<open>
  A read that passes the end-of-stream check and throws nothing, given the value of every
  local variable of the source in turn.
\<close>

lemma ReadAudioSamples_run:
  assumes "\<not> m_eof c" and "AudioClip_LeftSamples E c \<noteq> 0"
    and "n' = (if AudioClip_LeftSamples E c < n then AudioClip_LeftSamples E c else n)"
    and "c1 = fetch_pcmFrameSize E c"
    and "ex = fp_samples_to_ms E (m_readSamples c1) (rd_GetAudioOutSampleRate E (m_srcReader c))
               + m_startOffset c1"
    and "c2 = init_seek E ex c1"
    and "fw = rd_IsDirectionForward E (m_srcReader c2)"
    and "mismatch (rd_GetReadPos E (m_srcReader c2)) ex
           (rd_GetAudioOutSampleRate E (m_srcReader c)) fw = (sk, d)"
    and "compensate E n' ex sk d c2 = (Inr (amat, se), c3)"
    and "read_from_source E n' ex amat se c3 = (Inr (amat', se'), c4)"
    and "state_update E fw eof amat' se' c4 = (res, c5)"
  shows "AudioClip_ReadAudioSamples E n eof c = (Inr res, c5)"
  using assms(1,2) assms(8-11)
  unfolding AudioClip_ReadAudioSamples_def Let_def read_and_update_def
    assms(3-7) [symmetric]
  by simp

lemmas read_defs = AudioClip_LeftSamples_def fetch_pcmFrameSize_def init_seek_def mismatch_def
  MAX_ALLOWED_MISMATCH_SAMPLES_def compensate_def read_from_source_def state_update_def
  ImMat_empty_def ImMat_default_def Let_def

lemmas sim_eval = sim_def sim_read_def sim_reader_5000_def clip_5000_def

lemma read_all_clip_5000:
  "AudioClip_ReadAudioSamples sim 240000 False clip_5000
     = (Inr (\<lparr>mat_w = 240000, mat_time_stamp = 0\<rparr>, 240000, True), clip_5000_at_eof)"
  by (rule ReadAudioSamples_run [where n' = 240000
        and ?c1.0 = "clip_5000\<lparr>m_pcmFrameSize := 8\<rparr>" and ex = 0
        and ?c2.0 = "clip_5000\<lparr>m_pcmFrameSize := 8, m_initSeek := True\<rparr>"
        and fw = True and sk = False and d = 0
        and amat = "\<lparr>mat_w = 0, mat_time_stamp = 0\<rparr>" and se = False
        and ?c3.0 = "clip_5000\<lparr>m_pcmFrameSize := 8, m_initSeek := True\<rparr>"
        and amat' = "\<lparr>mat_w = 240000, mat_time_stamp = 0\<rparr>" and se' = False
        and ?c4.0 = "clip_5000\<lparr>m_srcReader := sim_reader_5000\<lparr>sr_pos := 240000\<rparr>,
                       m_pcmFrameSize := 8, m_initSeek := True\<rparr>"])
    (simp_all add: read_defs clip_5000_at_eof_def sim_eval machine_eval)

subsection \<open>\<^verbatim>\<open>SeekTo\<close> without effect\<close>

text \<open>
  C4. \<^verbatim>\<open>SeekTo(pos)\<close> with \<open>pos < 0\<close> or \<open>pos > Duration()\<close> throws nothing and returns
  the clip as it was: every field, the state of the reader session included, is
  unchanged.
\<close>

theorem SeekTo_out_of_range_unchanged:
  assumes "pos <s 0 \<or> AudioClip_Duration c <s pos"
  shows "AudioClip_SeekTo E pos c = (None, c)"
  using assms by (simp add: AudioClip_SeekTo_def)

theorem SeekTo_out_of_range_unchanged_witness:
  "((- 1 :: int64_t) <s 0 \<or> AudioClip_Duration clip_5000 <s - 1)
   \<and> AudioClip_SeekTo sim (- 1) clip_5000 = (None, clip_5000)
   \<and> ((5001 :: int64_t) <s 0 \<or> AudioClip_Duration clip_5000 <s 5001)
   \<and> AudioClip_SeekTo sim 5001 clip_5000 = (None, clip_5000)
   \<and> sr_seeks (m_srcReader (snd (AudioClip_SeekTo sim 5001 clip_5000))) = []"
proof -
  have a: "(- 1 :: int64_t) <s 0 \<or> AudioClip_Duration clip_5000 <s - 1"
    by (simp add: signed_compare)
  have b: "(5001 :: int64_t) <s 0 \<or> AudioClip_Duration clip_5000 <s 5001"
    by (simp add: AudioClip_Duration_def clip_5000_def signed_compare)
  show ?thesis
    using a b SeekTo_out_of_range_unchanged [OF a, of sim]
      SeekTo_out_of_range_unchanged [OF b, of sim]
    by (simp add: clip_5000_def sim_reader_5000_def)
qed

text \<open>
  C9. \<^verbatim>\<open>SeekTo(pos)\<close> with \<open>pos\<close> in range and \<open>pos * outputSampleRate / 1000\<close> equal to
  the current \<open>readSamples\<close> returns the clip as it was: the reader session is not
  called and the end-of-stream flag keeps its value, so a clip at its end stays there.
\<close>

theorem SeekTo_same_position_unchanged:
  assumes "\<not> pos <s 0" and "\<not> AudioClip_Duration c <s pos"
    and "sdiv64 (pos * ucast (rd_GetAudioOutSampleRate E (m_srcReader c))) 1000 = m_readSamples c"
  shows "AudioClip_SeekTo E pos c = (None, c)"
  using assms by (simp add: AudioClip_SeekTo_def)

theorem SeekTo_same_position_unchanged_witness:
  "\<not> (5000 :: int64_t) <s 0 \<and> \<not> AudioClip_Duration clip_5000_at_eof <s 5000
   \<and> sdiv64 (5000 * ucast (rd_GetAudioOutSampleRate sim (m_srcReader clip_5000_at_eof))) 1000
       = m_readSamples clip_5000_at_eof
   \<and> AudioClip_SeekTo sim 5000 clip_5000_at_eof = (None, clip_5000_at_eof)
   \<and> m_eof (snd (AudioClip_SeekTo sim 5000 clip_5000_at_eof))
   \<and> sr_seeks (m_srcReader (snd (AudioClip_SeekTo sim 5000 clip_5000_at_eof))) = []"
proof -
  have a: "\<not> (5000 :: int64_t) <s 0"
    by (simp add: signed_compare)
  have b: "\<not> AudioClip_Duration clip_5000_at_eof <s 5000"
    by (simp add: AudioClip_Duration_def clip_5000_at_eof_def clip_5000_def signed_compare)
  have c: "sdiv64 (5000 * ucast (rd_GetAudioOutSampleRate sim (m_srcReader clip_5000_at_eof))) 1000
       = m_readSamples clip_5000_at_eof"
    by (simp add: clip_5000_at_eof_def sim_eval machine_eval)
  show ?thesis
    using a b c SeekTo_same_position_unchanged [OF a b c]
    by (simp add: clip_5000_at_eof_def clip_5000_def sim_reader_5000_def)
qed

subsection \<open>Overlap of two clips\<close>

lemma ranges_intersect_iff:
  "ranges_intersect a b \<longleftrightarrow>
     (\<exists>t. AudioClip_Start a \<le>s t \<and> t <s AudioClip_End a \<and> AudioClip_Start b \<le>s t \<and> t <s AudioClip_End b)"
proof
  assume "ranges_intersect a b"
  then show "\<exists>t. AudioClip_Start a \<le>s t \<and> t <s AudioClip_End a \<and> AudioClip_Start b \<le>s t \<and> t <s AudioClip_End b"
    by (intro exI [of _ "smax64 (AudioClip_Start a) (AudioClip_Start b)"])
      (auto simp: ranges_intersect_def smax64_def smin64_def signed_compare split: if_splits)
next
  assume "\<exists>t. AudioClip_Start a \<le>s t \<and> t <s AudioClip_End a \<and> AudioClip_Start b \<le>s t \<and> t <s AudioClip_End b"
  then show "ranges_intersect a b"
    by (auto simp: ranges_intersect_def smax64_def smin64_def signed_compare)
qed

lemmas clip_eval = AudioClip_Start_def AudioClip_End_def AudioClip_Duration_def

text \<open>
  C8. For two clips, each with \<open>End() > Start()\<close>, \<^verbatim>\<open>HasOverlap\<close> is symmetric and is the
  overlap predicate of the spec.
\<close>

theorem HasOverlap_symmetric_and_spec:
  assumes "AudioClip_Start a <s AudioClip_End a" and "AudioClip_Start b <s AudioClip_End b"
  shows "HasOverlap a b = HasOverlap b a \<and> HasOverlap a b = spec_overlap a b"
  using assms unfolding HasOverlap_def spec_overlap_def signed_compare
  by auto

theorem HasOverlap_symmetric_and_spec_witness:
  "AudioClip_Start clip_5000 <s AudioClip_End clip_5000
   \<and> AudioClip_Start clip_3000_8000 <s AudioClip_End clip_3000_8000
   \<and> HasOverlap clip_5000 clip_3000_8000 \<and> HasOverlap clip_3000_8000 clip_5000
   \<and> spec_overlap clip_5000 clip_3000_8000"
proof -
  have a: "AudioClip_Start clip_5000 <s AudioClip_End clip_5000"
    by (simp add: clip_eval clip_5000_def signed_compare)
  have b: "AudioClip_Start clip_3000_8000 <s AudioClip_End clip_3000_8000"
    by (simp add: clip_eval clip_3000_8000_def clip_5000_def signed_compare)
  have "HasOverlap clip_5000 clip_3000_8000"
    by (simp add: HasOverlap_def clip_eval clip_3000_8000_def clip_5000_def signed_compare)
  then show ?thesis
    using a b HasOverlap_symmetric_and_spec [OF a b] by blast
qed

text \<open>
  For an overlap whose rear clip after \<^verbatim>\<open>Update()\<close> has \<open>End() > Start()\<close>: the front clip's
  start is at most the rear clip's start (this part needs no hypothesis); the window has
  \<open>start \<le> end\<close>; the window is (0, 0) exactly when the ranges of the two clips do not
  intersect; otherwise its start is the rear clip's start and its end is the smaller of
  the two ends.
\<close>

lemma Update_front_before_rear:
  "AudioClip_Start (ov_frontClip (AudioOverlap_Update ov))
     \<le>s AudioClip_Start (ov_rearClip (AudioOverlap_Update ov))"
  unfolding AudioOverlap_Update_def Let_def
  by (auto simp: signed_compare)

lemma Update_window_rear_not_empty:
  assumes "AudioClip_Start (ov_rearClip (AudioOverlap_Update ov))
             <s AudioClip_End (ov_rearClip (AudioOverlap_Update ov))"
  shows "AudioClip_Start (ov_frontClip (AudioOverlap_Update ov))
           \<le>s AudioClip_Start (ov_rearClip (AudioOverlap_Update ov))
    \<and> ov_start (AudioOverlap_Update ov) \<le>s ov_end (AudioOverlap_Update ov)
    \<and> ((ov_start (AudioOverlap_Update ov) = 0 \<and> ov_end (AudioOverlap_Update ov) = 0)
         \<longleftrightarrow> \<not> ranges_intersect (ov_frontClip ov) (ov_rearClip ov))
    \<and> (ranges_intersect (ov_frontClip ov) (ov_rearClip ov) \<longrightarrow>
         ov_start (AudioOverlap_Update ov) = AudioClip_Start (ov_rearClip (AudioOverlap_Update ov))
         \<and> ov_end (AudioOverlap_Update ov) =
             smin64 (AudioClip_End (ov_frontClip ov)) (AudioClip_End (ov_rearClip ov)))"
proof -
  have z: "x = 0 \<longleftrightarrow> sint x = 0" for x :: int64_t
    using signed_eq_0_iff [where ?'a = int, of x] by simp
  show ?thesis
    using assms
    unfolding AudioOverlap_Update_def Let_def ranges_intersect_def smax64_def smin64_def
    by (auto simp: signed_compare z split: if_splits intro: signed_word_eqI [where ?'a = int])
qed

lemma Update_window_spec_scenario:
  "ov_frontClip (AudioOverlap_new 1 clip_3000_8000 clip_5000) = clip_5000
   \<and> ov_rearClip (AudioOverlap_new 1 clip_3000_8000 clip_5000) = clip_3000_8000
   \<and> ov_start (AudioOverlap_new 1 clip_3000_8000 clip_5000) = 3000
   \<and> ov_end (AudioOverlap_new 1 clip_3000_8000 clip_5000) = 5000"
  by (simp add: AudioOverlap_new_def AudioOverlap_Update_def clip_eval clip_3000_8000_def
      clip_5000_def signed_compare)

text \<open>
  C7. The code breaks the claim for a clip whose duration has become negative. The
  clip of the span [1000, 2000) on the source of 5000 ms is constructed with the padding
  -4000. \<^verbatim>\<open>ChangeStartOffset(2000)\<close> accepts the new offset, because its check compares
  the offsets with the duration of the source and leaves the padding out, although the
  exception it guards says that the duration of the clip is not larger than 0: the
  clip then has the duration -1000 and ends at 0. For the overlap of the clip [0, 5000)
  and that clip, \<^verbatim>\<open>Update()\<close> leaves the window (1000, 0): its start lies after its end,
  and it is not (0, 0).
\<close>

theorem Update_window_start_after_end:
  "AudioClip_new sim 3 sim_parser_5000 2 48000 ''fltp'' 1000 2000 0 0 = Inr clip_short
   \<and> AudioClip_ChangeStartOffset sim 2000 clip_short = Inr clip_short_trimmed
   \<and> AudioClip_Duration clip_short_trimmed = - 1000
   \<and> AudioClip_Start clip_short_trimmed = 1000 \<and> AudioClip_End clip_short_trimmed = 0
   \<and> AudioClip_Start clip_5000 = 0 \<and> AudioClip_End clip_5000 = 5000
   \<and> ov_frontClip (AudioOverlap_Update (AudioOverlap_new 1 clip_5000 clip_short_trimmed))
       = clip_5000
   \<and> ov_rearClip (AudioOverlap_Update (AudioOverlap_new 1 clip_5000 clip_short_trimmed))
       = clip_short_trimmed
   \<and> ov_start (AudioOverlap_Update (AudioOverlap_new 1 clip_5000 clip_short_trimmed)) = 1000
   \<and> ov_end (AudioOverlap_Update (AudioOverlap_new 1 clip_5000 clip_short_trimmed)) = 0
   \<and> \<not> ov_start (AudioOverlap_Update (AudioOverlap_new 1 clip_5000 clip_short_trimmed))
         \<le>s ov_end (AudioOverlap_Update (AudioOverlap_new 1 clip_5000 clip_short_trimmed))"
  by (simp add: AudioClip_new_def AudioClip_ChangeStartOffset_def AudioOverlap_new_def
      AudioOverlap_Update_def clip_eval clip_short_def clip_short_trimmed_def
      sim_parser_5000_def sim_eval machine_eval)

subsection \<open>The offsets\<close>

lemma ucast_down_diff: "(ucast (a - b :: int64_t) :: uint32_t) = ucast a - ucast b"
proof -
  have "uint (a - b) = take_bit LENGTH(64) (uint a - uint b)"
    by (rule uint_word_arith_bintrs)
  then have "(ucast (a - b) :: uint32_t) = word_of_int (take_bit LENGTH(64) (uint a - uint b))"
    by (simp only: ucast_eq)
  also have "\<dots> = word_of_int (uint a - uint b)"
    by (rule wi_bintr) simp
  also have "\<dots> = word_of_int (uint a) - word_of_int (uint b)"
    by (rule wi_hom_syms)
  finally show ?thesis
    by (simp only: ucast_eq)
qed

text \<open>
  C6, as stated, fails at construction: the constructor checks the two offsets against
  0 and the span against 0, not the offsets against the duration of the source.
\<close>

theorem offsets_invariant_counterexample:
  "AudioClip_new sim 4 sim_parser_5000 2 48000 ''fltp'' 0 1000 3000 3000 = Inr clip_offsets_6000
   \<and> \<not> offsets_invariant clip_offsets_6000"
  by (simp add: AudioClip_new_def offsets_invariant_def clip_offsets_6000_def clip_eval
      sim_parser_5000_def sim_eval machine_eval)

text \<open>
  C6, amended. A successful construction guarantees \<open>startOffset \<ge> 0\<close>,
  \<open>endOffset \<ge> 0\<close> and \<open>end > start\<close>. The invariant
  \<open>startOffset + endOffset < sourceDuration\<close> is preserved by every successful call of
  \<^verbatim>\<open>ChangeStartOffset\<close> and \<^verbatim>\<open>ChangeEndOffset\<close>, and it holds after every successful call
  that changes the offset. When the invariant holds, or the value differs from the
  current offset, a value that would violate it is rejected with \<^verbatim>\<open>invalid_argument\<close>.
\<close>

theorem offsets_invariant_preserved:
  "(AudioClip_new E ident hParser outChannels outSampleRate outSampleFormat
      start end' startOffset endOffset = Inr c0 \<longrightarrow>
      0 \<le>s m_startOffset c0 \<and> 0 \<le>s m_endOffset c0 \<and> start <s end'
      \<and> m_startOffset c0 = startOffset \<and> m_endOffset c0 = endOffset)
   \<and> (AudioClip_ChangeStartOffset E v c = Inr c' \<and> (offsets_invariant c \<or> v \<noteq> m_startOffset c)
        \<longrightarrow> offsets_invariant c')
   \<and> (AudioClip_ChangeEndOffset E v c = Inr c' \<and> (offsets_invariant c \<or> v \<noteq> m_endOffset c)
        \<longrightarrow> offsets_invariant c')
   \<and> ((offsets_invariant c \<or> v \<noteq> m_startOffset c) \<and> \<not> v + m_endOffset c <s m_srcDuration c
        \<longrightarrow> (\<exists>msg. AudioClip_ChangeStartOffset E v c = Inl (invalid_argument msg)))
   \<and> ((offsets_invariant c \<or> v \<noteq> m_endOffset c) \<and> \<not> m_startOffset c + v <s m_srcDuration c
        \<longrightarrow> (\<exists>msg. AudioClip_ChangeEndOffset E v c = Inl (invalid_argument msg)))"
proof (intro conjI impI)
  assume n: "AudioClip_new E ident hParser outChannels outSampleRate outSampleFormat
      start end' startOffset endOffset = Inr c0"
  show "0 \<le>s m_startOffset c0" "0 \<le>s m_endOffset c0" "start <s end'"
    "m_startOffset c0 = startOffset" "m_endOffset c0 = endOffset"
    using new_fields [OF n] by (simp_all add: signed.not_less)
next
  assume "AudioClip_ChangeStartOffset E v c = Inr c' \<and> (offsets_invariant c \<or> v \<noteq> m_startOffset c)"
  then show "offsets_invariant c'"
    by (auto simp: AudioClip_ChangeStartOffset_def offsets_invariant_def Let_def signed.not_le
        split: if_splits)
next
  assume "AudioClip_ChangeEndOffset E v c = Inr c' \<and> (offsets_invariant c \<or> v \<noteq> m_endOffset c)"
  then show "offsets_invariant c'"
    by (auto simp: AudioClip_ChangeEndOffset_def offsets_invariant_def Let_def signed.not_le
        split: if_splits)
next
  assume "(offsets_invariant c \<or> v \<noteq> m_startOffset c) \<and> \<not> v + m_endOffset c <s m_srcDuration c"
  then show "\<exists>msg. AudioClip_ChangeStartOffset E v c = Inl (invalid_argument msg)"
    by (auto simp: AudioClip_ChangeStartOffset_def offsets_invariant_def signed.not_less)
next
  assume "(offsets_invariant c \<or> v \<noteq> m_endOffset c) \<and> \<not> m_startOffset c + v <s m_srcDuration c"
  then show "\<exists>msg. AudioClip_ChangeEndOffset E v c = Inl (invalid_argument msg)"
    by (auto simp: AudioClip_ChangeEndOffset_def offsets_invariant_def signed.not_less)
qed

theorem offsets_invariant_preserved_witness:
  "AudioClip_new sim 1 sim_parser_5000 2 48000 ''fltp'' 0 5000 0 0 = Inr clip_5000
   \<and> offsets_invariant clip_5000
   \<and> AudioClip_ChangeStartOffset sim 1000 clip_5000 = Inr clip_5000_trimmed
   \<and> offsets_invariant clip_5000_trimmed
   \<and> AudioClip_ChangeEndOffset sim 1000 clip_5000
       = Inr (clip_5000\<lparr>m_endOffset := 1000, m_totalSamples := 192000\<rparr>)
   \<and> offsets_invariant (clip_5000\<lparr>m_endOffset := 1000, m_totalSamples := 192000\<rparr>)
   \<and> \<not> 5000 + m_endOffset clip_5000 <s m_srcDuration clip_5000
   \<and> AudioClip_ChangeStartOffset sim 5000 clip_5000 = Inl (invalid_argument
         ''Argument startOffset/endOffset, clip duration is NOT LARGER than 0!'')
   \<and> \<not> m_startOffset clip_5000 + 5000 <s m_srcDuration clip_5000
   \<and> AudioClip_ChangeEndOffset sim 5000 clip_5000 = Inl (invalid_argument
         ''Argument startOffset/endOffset, clip duration is NOT LARGER than 0!'')"
proof -
  have i: "offsets_invariant clip_5000"
    by (simp add: offsets_invariant_def clip_5000_def signed_compare)
  have e: "AudioClip_ChangeEndOffset sim 1000 clip_5000
       = Inr (clip_5000\<lparr>m_endOffset := 1000, m_totalSamples := 192000\<rparr>)"
    by (simp add: AudioClip_ChangeEndOffset_def clip_eval sim_eval machine_eval)
  have r: "\<not> 5000 + m_endOffset clip_5000 <s m_srcDuration clip_5000"
    "\<not> m_startOffset clip_5000 + 5000 <s m_srcDuration clip_5000"
    by (simp_all add: clip_5000_def signed_compare)
  have x: "AudioClip_ChangeStartOffset sim 5000 clip_5000 = Inl (invalid_argument
         ''Argument startOffset/endOffset, clip duration is NOT LARGER than 0!'')"
    "AudioClip_ChangeEndOffset sim 5000 clip_5000 = Inl (invalid_argument
         ''Argument startOffset/endOffset, clip duration is NOT LARGER than 0!'')"
    by (simp_all add: AudioClip_ChangeStartOffset_def AudioClip_ChangeEndOffset_def
        clip_5000_def signed_compare)
  show ?thesis
    using i e r x new_clip_5000 ChangeStartOffset_clip_5000
      offsets_invariant_preserved [of sim 1 sim_parser_5000 2 48000 "''fltp''" 0 5000 0 0
        clip_5000 1000 clip_5000 clip_5000_trimmed]
      offsets_invariant_preserved [of sim 1 sim_parser_5000 2 48000 "''fltp''" 0 5000 0 0
        clip_5000 1000 clip_5000 "clip_5000\<lparr>m_endOffset := 1000, m_totalSamples := 192000\<rparr>"]
      offsets_invariant_preserved [of sim 1 sim_parser_5000 2 48000 "''fltp''" 0 5000 0 0
        clip_5000 5000 clip_5000 clip_5000]
    by simp
qed

lemma ucast_down_sum: "(ucast (a + b :: int64_t) :: uint32_t) = ucast a + ucast b"
proof -
  have "uint (a + b) = take_bit LENGTH(64) (uint a + uint b)"
    by (rule uint_word_arith_bintrs)
  then have "(ucast (a + b) :: uint32_t) = word_of_int (take_bit LENGTH(64) (uint a + uint b))"
    by (simp only: ucast_eq)
  also have "\<dots> = word_of_int (uint a + uint b)"
    by (rule wi_bintr) simp
  also have "\<dots> = word_of_int (uint a) + word_of_int (uint b)"
    by (rule wi_hom_syms)
  finally show ?thesis
    by (simp only: ucast_eq)
qed

text \<open>
  C5, as stated, fails when the clip reads forward: \<^verbatim>\<open>ChangeStartOffset(1000)\<close> on the
  clip of the spec's scenario takes \<open>totalSamples\<close> from 240000 to 192000 and leaves
  \<^verbatim>\<open>LeftSamples()\<close> at 240000.
\<close>

theorem ChangeStartOffset_LeftSamples_counterexample:
  "AudioClip_new sim 1 sim_parser_5000 2 48000 ''fltp'' 0 5000 0 0 = Inr clip_5000
   \<and> \<not> (1000 :: int64_t) <s 0
   \<and> 1000 + m_endOffset clip_5000 <s m_srcDuration clip_5000
   \<and> AudioClip_ChangeStartOffset sim 1000 clip_5000 = Inr clip_5000_trimmed
   \<and> m_totalSamples clip_5000 = 240000 \<and> m_totalSamples clip_5000_trimmed = 192000
   \<and> AudioClip_LeftSamples sim clip_5000 = 240000
   \<and> AudioClip_LeftSamples sim clip_5000_trimmed = 240000
   \<and> uint (AudioClip_LeftSamples sim clip_5000_trimmed) - uint (AudioClip_LeftSamples sim clip_5000)
       \<noteq> sint (m_totalSamples clip_5000_trimmed) - sint (m_totalSamples clip_5000)"
  using new_clip_5000
  by (simp add: AudioClip_ChangeStartOffset_def AudioClip_LeftSamples_def clip_eval
      clip_5000_trimmed_def sim_eval machine_eval)

text \<open>
  C5, amended. A successful \<^verbatim>\<open>ChangeStartOffset(v)\<close> changes \<open>readSamples\<close> by exactly the
  difference between the new and the old \<open>totalSamples\<close>. Where that shift does not
  overflow: when the clip reads forward, \<^verbatim>\<open>LeftSamples()\<close> is unchanged; when it reads
  in reverse and \<open>readSamples\<close> is in \<open>[0, totalSamples]\<close> before and at least 0 after,
  \<^verbatim>\<open>LeftSamples()\<close> changes by exactly that difference (as \<^verbatim>\<open>uint32_t\<close>).
\<close>

theorem ChangeStartOffset_LeftSamples:
  assumes "AudioClip_ChangeStartOffset E v c = Inr c'"
  shows "m_readSamples c' = m_readSamples c + (m_totalSamples c' - m_totalSamples c)
    \<and> (sint (m_readSamples c') - sint (m_readSamples c)
          = sint (m_totalSamples c') - sint (m_totalSamples c) \<longrightarrow>
        (rd_IsDirectionForward E (m_srcReader c) \<longrightarrow>
           AudioClip_LeftSamples E c' = AudioClip_LeftSamples E c)
      \<and> (\<not> rd_IsDirectionForward E (m_srcReader c) \<and> 0 \<le>s m_readSamples c
           \<and> m_readSamples c \<le>s m_totalSamples c \<and> 0 \<le>s m_readSamples c' \<longrightarrow>
           AudioClip_LeftSamples E c'
             = AudioClip_LeftSamples E c + ucast (m_totalSamples c' - m_totalSamples c)))"
proof (cases "v = m_startOffset c")
  case True
  then have "c' = c"
    using assms by (simp add: AudioClip_ChangeStartOffset_def)
  then show ?thesis by simp
next
  case False
  define nt where "nt = sdiv64 (AudioClip_Duration (c\<lparr>m_startOffset := v\<rparr>)
      * ucast (rd_GetAudioOutSampleRate E (m_srcReader c))) 1000"
  from False assms have c': "c' = c\<lparr>m_startOffset := v,
      m_readSamples := m_readSamples c + (nt - m_totalSamples c), m_totalSamples := nt\<rparr>"
    by (auto simp: AudioClip_ChangeStartOffset_def Let_def nt_def split: if_splits)
  have d: "nt - (m_readSamples c + (nt - m_totalSamples c)) = m_totalSamples c - m_readSamples c"
    by simp
  show ?thesis
    unfolding c' AudioClip_LeftSamples_def Let_def
    by (auto simp: signed_compare d ucast_down_sum)
qed

theorem ChangeStartOffset_LeftSamples_witness:
  "AudioClip_ChangeStartOffset sim 1000 clip_5000 = Inr clip_5000_trimmed
   \<and> sint (m_readSamples clip_5000_trimmed) - sint (m_readSamples clip_5000)
       = sint (m_totalSamples clip_5000_trimmed) - sint (m_totalSamples clip_5000)
   \<and> rd_IsDirectionForward sim (m_srcReader clip_5000)
   \<and> AudioClip_LeftSamples sim clip_5000_trimmed = AudioClip_LeftSamples sim clip_5000
   \<and> AudioClip_ChangeStartOffset sim 1000 clip_5000_reverse = Inr clip_5000_reverse_trimmed
   \<and> sint (m_readSamples clip_5000_reverse_trimmed) - sint (m_readSamples clip_5000_reverse)
       = sint (m_totalSamples clip_5000_reverse_trimmed) - sint (m_totalSamples clip_5000_reverse)
   \<and> \<not> rd_IsDirectionForward sim (m_srcReader clip_5000_reverse)
   \<and> 0 \<le>s m_readSamples clip_5000_reverse
   \<and> m_readSamples clip_5000_reverse \<le>s m_totalSamples clip_5000_reverse
   \<and> 0 \<le>s m_readSamples clip_5000_reverse_trimmed
   \<and> AudioClip_LeftSamples sim clip_5000_reverse = 240000
   \<and> AudioClip_LeftSamples sim clip_5000_reverse_trimmed = 192000
   \<and> (192000 :: uint32_t) = 240000 + ucast (192000 - 240000 :: int64_t)"
proof -
  have r: "AudioClip_ChangeStartOffset sim 1000 clip_5000_reverse = Inr clip_5000_reverse_trimmed"
    by (simp add: AudioClip_ChangeStartOffset_def clip_eval clip_5000_reverse_trimmed_def
        clip_5000_reverse_def clip_5000_at_eof_def sim_eval machine_eval)
  have l: "AudioClip_LeftSamples sim clip_5000_reverse = 240000"
    by (simp add: AudioClip_LeftSamples_def clip_5000_reverse_def clip_5000_at_eof_def
        sim_eval machine_eval)
  show ?thesis
    using ChangeStartOffset_LeftSamples [OF ChangeStartOffset_clip_5000]
      ChangeStartOffset_LeftSamples [OF r] ChangeStartOffset_clip_5000 r l
    by (simp add: clip_5000_reverse_trimmed_def clip_5000_reverse_def clip_5000_at_eof_def
        clip_5000_trimmed_def sim_eval machine_eval)
qed

subsection \<open>Signed arithmetic without overflow\<close>

lemma sint_ucast_u32: "sint (ucast (r :: uint32_t) :: int64_t) = uint r"
proof -
  have "signed_take_bit 63 (uint r) = uint r"
  proof (rule signed_take_bit_int_eq_self)
    have "- (2 ^ 63) \<le> (0 :: int)" by simp
    also have "0 \<le> uint r" by simp
    finally show "- (2 ^ 63) \<le> uint r" .
    have "uint r < 2 ^ 32"
      using uint_bounded [of r] by simp
    also have "(2 :: int) ^ 32 \<le> 2 ^ 63" by simp
    finally show "uint r < 2 ^ 63" .
  qed
  then show ?thesis
    by (simp add: signed_ucast_eq)
qed

lemma sint_mult_in_range:
  assumes "- (2 ^ 63) \<le> sint a * sint b" and "sint a * sint b < 2 ^ 63"
  shows "sint (a * b :: int64_t) = sint a * sint b"
  using signed_take_bit_int_eq_self [OF assms] by (simp add: sint_word_mult)

lemma sint_sdiv64_nonneg:
  assumes "0 \<le> sint a" and "0 < sint b"
  shows "sint (sdiv64 a b) = sint a div sint b"
proof -
  have d: "sint a sdiv sint b = sint a div sint b"
    using assms by (simp add: signed_divide_int_def sgn_if)
  have "0 \<le> sint a div sint b"
    using assms by (simp add: pos_imp_zdiv_nonneg_iff)
  moreover have "sint a div sint b \<le> sint a"
    using zdiv_mono2 [of "sint a" 1 "sint b"] assms by simp
  moreover have "sint a < 2 ^ 63"
    using sint_lt [of a] by simp
  ultimately have "- (2 ^ 63) \<le> sint a div sint b" "sint a div sint b < 2 ^ 63"
    by simp_all
  then have "signed_take_bit 63 (sint a div sint b) = sint a div sint b"
    by (rule signed_take_bit_int_eq_self)
  then show ?thesis
    by (simp add: sdiv64_def d sint_sbintrunc')
qed

lemma ms_samples_round_trip:
  fixes P R :: int
  assumes "0 \<le> P" and "0 < R"
  shows "(P * R div 1000) * 1000 div R \<le> P"
    and "(P - (P * R div 1000) * 1000 div R - 1) * R < 1000"
proof -
  define q where "q = P * R div 1000"
  define K where "K = q * 1000 div R"
  define PR where "PR = P * R"
  define KR where "KR = K * R"
  have e1: "1000 * q + PR mod 1000 = PR"
    unfolding q_def PR_def by (simp add: mult_div_mod_eq)
  have m1: "0 \<le> PR mod 1000" "PR mod 1000 < 1000"
    by simp_all
  have e2: "KR + (q * 1000) mod R = q * 1000"
    unfolding K_def KR_def using mult_div_mod_eq [of R "q * 1000"] by (simp add: mult.commute)
  have m2: "0 \<le> (q * 1000) mod R" "(q * 1000) mod R < R"
    using assms by simp_all
  have "KR \<le> PR"
    using e1 m1 e2 m2 by linarith
  then have "K \<le> P"
    unfolding KR_def PR_def using assms by simp
  then show "(P * R div 1000) * 1000 div R \<le> P"
    by (simp add: K_def q_def)
  have "PR - KR - R < 1000"
    using e1 m1 e2 m2 by linarith
  then have "(P - K - 1) * R < 1000"
    by (simp add: PR_def KR_def algebra_simps)
  then show "(P - (P * R div 1000) * 1000 div R - 1) * R < 1000"
    by (simp add: K_def q_def)
qed

lemma ms_samples_round_trip_word:
  fixes pos :: int64_t and rate :: uint32_t
  assumes "0 \<le> sint pos" and "rate \<noteq> 0" and "sint pos * uint rate < 2 ^ 63"
  shows "sint (sdiv64 (sdiv64 (pos * ucast rate) 1000 * 1000) (ucast rate)) \<le> sint pos"
    and "(sint pos - sint (sdiv64 (sdiv64 (pos * ucast rate) 1000 * 1000) (ucast rate)) - 1)
           * uint rate < 1000"
    and "uint rate mod 1000 = 0 \<Longrightarrow>
           sdiv64 (sdiv64 (pos * ucast rate) 1000 * 1000) (ucast rate) = pos"
proof -
  define P where "P = sint pos"
  define R where "R = uint rate"
  have "uint rate \<noteq> 0"
    using assms(2) unsigned_eq_0_iff [where ?'a = int, of rate] by simp
  then have R: "0 < R"
    unfolding R_def using uint_ge_0 [of rate] by linarith
  have P: "0 \<le> P"
    using assms(1) by (simp add: P_def)
  have PR: "0 \<le> P * R" "P * R < 2 ^ 63"
    using P R assms(3) by (simp_all add: P_def R_def)
  have s1: "sint (ucast rate :: int64_t) = R"
    by (simp add: sint_ucast_u32 R_def)
  have s2: "sint (pos * ucast rate) = P * R"
    using PR sint_mult_in_range [of pos "ucast rate"] by (simp add: s1 P_def)
  have s3: "sint (sdiv64 (pos * ucast rate) 1000) = P * R div 1000"
    using PR sint_sdiv64_nonneg [of "pos * ucast rate" 1000] by (simp add: s2)
  have q: "0 \<le> P * R div 1000" "P * R div 1000 * 1000 \<le> P * R"
    using PR by (simp_all add: pos_imp_zdiv_nonneg_iff)
  have s4: "sint (sdiv64 (pos * ucast rate) 1000 * 1000) = P * R div 1000 * 1000"
    using q PR sint_mult_in_range [of "sdiv64 (pos * ucast rate) 1000" 1000] by (simp add: s3)
  have s5: "sint (sdiv64 (sdiv64 (pos * ucast rate) 1000 * 1000) (ucast rate))
      = P * R div 1000 * 1000 div R"
    using q R sint_sdiv64_nonneg [of "sdiv64 (pos * ucast rate) 1000 * 1000" "ucast rate"]
    by (simp add: s1 s4)
  show "sint (sdiv64 (sdiv64 (pos * ucast rate) 1000 * 1000) (ucast rate)) \<le> sint pos"
    using ms_samples_round_trip(1) [OF P R] by (simp add: s5 P_def)
  show "(sint pos - sint (sdiv64 (sdiv64 (pos * ucast rate) 1000 * 1000) (ucast rate)) - 1)
           * uint rate < 1000"
    using ms_samples_round_trip(2) [OF P R] by (simp add: s5 P_def R_def)
  show "sdiv64 (sdiv64 (pos * ucast rate) 1000 * 1000) (ucast rate) = pos"
    if "uint rate mod 1000 = 0"
  proof (rule signed_word_eqI [where ?'a = int])
    from that have "1000 dvd R"
      by (simp add: R_def dvd_eq_mod_eq_0)
    then have "1000 dvd P * R"
      by simp
    then have "P * R div 1000 * 1000 = P * R"
      by simp
    then have "P * R div 1000 * 1000 div R = P"
      using R by simp
    then show "sint (sdiv64 (sdiv64 (pos * ucast rate) 1000 * 1000) (ucast rate)) = sint pos"
      by (simp add: s5 P_def)
  qed
qed

subsection \<open>\<^verbatim>\<open>SeekTo\<close> in range\<close>

text \<open>
  C3, as stated, fails in two ways. A clip at its end that is asked to seek to the
  position it is at returns at once: no seek is issued and the end-of-stream flag stays
  set. And at 44100 Hz, \<^verbatim>\<open>SeekTo(1)\<close> sets \<open>readSamples\<close> to 44, for which \<^verbatim>\<open>ReadPos()\<close> is
  \<open>start + 0\<close>: one millisecond from \<open>start + pos\<close>, where a sample period is 1000/44100 ms.
\<close>

theorem SeekTo_in_range_counterexample:
  "AudioClip_new sim 1 sim_parser_5000 2 48000 ''fltp'' 0 5000 0 0 = Inr clip_5000
   \<and> snd (AudioClip_ReadAudioSamples sim 240000 False clip_5000) = clip_5000_at_eof
   \<and> \<not> (5000 :: int64_t) <s 0 \<and> \<not> AudioClip_Duration clip_5000_at_eof <s 5000
   \<and> m_eof clip_5000_at_eof
   \<and> fst (AudioClip_SeekTo sim 5000 clip_5000_at_eof) = None
   \<and> m_eof (snd (AudioClip_SeekTo sim 5000 clip_5000_at_eof))
   \<and> sr_seeks (m_srcReader (snd (AudioClip_SeekTo sim 5000 clip_5000_at_eof))) = []
   \<and> AudioClip_new sim 5 sim_parser_5000 2 44100 ''fltp'' 0 5000 0 0 = Inr clip_44100
   \<and> \<not> (1 :: int64_t) <s 0 \<and> \<not> AudioClip_Duration clip_44100 <s 1
   \<and> AudioClip_SeekTo sim 1 clip_44100 = (None, clip_44100_sought)
   \<and> AudioClip_ReadPos sim clip_44100_sought = Some 0
   \<and> \<not> \<bar>sint (0 :: int64_t) - sint (m_start clip_44100 + 1)\<bar> * uint (44100 :: uint32_t) \<le> 1000"
  using new_clip_5000 read_all_clip_5000
  by (simp add: AudioClip_SeekTo_def AudioClip_new_def AudioClip_ReadPos_def clip_eval
      clip_5000_at_eof_def clip_44100_def clip_44100_sought_def sim_reader_44100_def
      sim_parser_5000_def sim_eval machine_eval)

text \<open>
  C3, amended. For \<open>pos\<close> in \<open>[0, Duration()]\<close>, a \<^verbatim>\<open>SeekTo(pos)\<close> that throws nothing
  leaves \<open>readSamples = pos * outputSampleRate / 1000\<close>. If that changes \<open>readSamples\<close>,
  the call has issued a successful seek of the source session to \<open>pos + startOffset\<close>
  clamped to \<open>sourceDuration\<close>, and it has cleared the end-of-stream flag. If the output
  sample rate is kept, is not 0, and \<open>pos * outputSampleRate\<close> does not overflow, then
  \<^verbatim>\<open>ReadPos()\<close> afterwards is \<open>start + k\<close> with \<open>k \<le> pos\<close> and \<open>pos - k\<close> less than one
  millisecond plus one sample period; \<open>k = pos\<close> when the rate is a multiple of 1000.
\<close>

theorem SeekTo_in_range:
  assumes "\<not> pos <s 0" and "\<not> AudioClip_Duration c <s pos"
    and "AudioClip_SeekTo E pos c = (None, c')"
  shows "m_readSamples c' = sdiv64 (pos * ucast (rd_GetAudioOutSampleRate E (m_srcReader c))) 1000
    \<and> m_start c' = m_start c
    \<and> (m_readSamples c' \<noteq> m_readSamples c \<longrightarrow>
          rd_SeekTo E (smin64 (pos + m_startOffset c) (m_srcDuration c)) (m_srcReader c)
            = (True, m_srcReader c')
          \<and> \<not> m_eof c')
    \<and> (rd_GetAudioOutSampleRate E (m_srcReader c') = rd_GetAudioOutSampleRate E (m_srcReader c)
         \<and> rd_GetAudioOutSampleRate E (m_srcReader c) \<noteq> 0
         \<and> sint pos * uint (rd_GetAudioOutSampleRate E (m_srcReader c)) < 2 ^ 63 \<longrightarrow>
          (\<exists>k. AudioClip_ReadPos E c' = Some (m_start c + k)
             \<and> sint k \<le> sint pos
             \<and> (sint pos - sint k - 1) * uint (rd_GetAudioOutSampleRate E (m_srcReader c)) < 1000
             \<and> (uint (rd_GetAudioOutSampleRate E (m_srcReader c)) mod 1000 = 0 \<longrightarrow> k = pos)))"
proof -
  define rate where "rate = rd_GetAudioOutSampleRate E (m_srcReader c)"
  define target where "target = sdiv64 (pos * ucast rate) 1000"
  define seekPos where "seekPos = smin64 (pos + m_startOffset c) (m_srcDuration c)"
  have clamp: "(if m_srcDuration c <s pos + m_startOffset c then m_srcDuration c
                else pos + m_startOffset c) = seekPos"
    by (auto simp: seekPos_def smin64_def signed_compare intro: signed_word_eqI [where ?'a = int])
  have r: "m_readSamples c' = target" "m_start c' = m_start c"
    using assms unfolding AudioClip_SeekTo_def Let_def clamp rate_def [symmetric]
      target_def [symmetric]
    by (auto split: if_splits prod.splits)
  have s: "rd_SeekTo E seekPos (m_srcReader c) = (True, m_srcReader c') \<and> \<not> m_eof c'"
    if "m_readSamples c' \<noteq> m_readSamples c"
    using assms that unfolding AudioClip_SeekTo_def Let_def clamp rate_def [symmetric]
      target_def [symmetric]
    by (auto split: if_splits prod.splits)
  have p: "\<exists>k. AudioClip_ReadPos E c' = Some (m_start c + k) \<and> sint k \<le> sint pos
             \<and> (sint pos - sint k - 1) * uint rate < 1000
             \<and> (uint rate mod 1000 = 0 \<longrightarrow> k = pos)"
    if h: "rd_GetAudioOutSampleRate E (m_srcReader c') = rate" "rate \<noteq> 0"
      "sint pos * uint rate < 2 ^ 63"
  proof -
    have P: "0 \<le> sint pos"
      using assms(1) by (simp add: signed_compare)
    have "AudioClip_ReadPos E c' = Some (m_start c + sdiv64 (target * 1000) (ucast rate))"
      using h(1,2) r by (simp add: AudioClip_ReadPos_def)
    then show ?thesis
      using ms_samples_round_trip_word [OF P h(2,3)] unfolding target_def by blast
  qed
  show ?thesis
    using r s p unfolding rate_def target_def seekPos_def by blast
qed

theorem SeekTo_in_range_witness:
  "\<not> (1000 :: int64_t) <s 0 \<and> \<not> AudioClip_Duration clip_5000 <s 1000
   \<and> AudioClip_SeekTo sim 1000 clip_5000 = (None, clip_5000_sought)
   \<and> m_readSamples clip_5000_sought = 48000
   \<and> m_readSamples clip_5000_sought \<noteq> m_readSamples clip_5000
   \<and> sr_seeks (m_srcReader clip_5000_sought) = [1000]
   \<and> \<not> m_eof clip_5000_sought
   \<and> rd_GetAudioOutSampleRate sim (m_srcReader clip_5000_sought) = 48000
   \<and> AudioClip_ReadPos sim clip_5000_sought = Some 1000"
proof -
  have a: "\<not> (1000 :: int64_t) <s 0"
    by (simp add: signed_compare)
  have b: "\<not> AudioClip_Duration clip_5000 <s 1000"
    by (simp add: clip_eval clip_5000_def signed_compare)
  have c: "AudioClip_SeekTo sim 1000 clip_5000 = (None, clip_5000_sought)"
    by (simp add: AudioClip_SeekTo_def clip_eval clip_5000_sought_def sim_eval machine_eval)
  have d: "rd_GetAudioOutSampleRate sim (m_srcReader clip_5000_sought) = 48000"
    "rd_GetAudioOutSampleRate sim (m_srcReader clip_5000) = 48000"
    by (simp_all add: clip_5000_sought_def sim_eval)
  show ?thesis
    using SeekTo_in_range [OF a b c] a b c d
    by (simp add: clip_5000_sought_def clip_5000_def)
qed

subsection \<open>The phases of \<^verbatim>\<open>ReadAudioSamples\<close>\<close>

lemma ReadAudioSamples_cases:
  assumes "AudioClip_ReadAudioSamples E n eof c = (Inr res, c')"
  obtains (early) "m_eof c \<or> AudioClip_LeftSamples E c = 0"
      and "res = (ImMat_default E, 0, True)" and "c' = c\<lparr>m_eof := True\<rparr>"
  | (run) n' c1 ex c2 fw sk d amat se c3 amat' se' c4
    where "\<not> m_eof c" and "AudioClip_LeftSamples E c \<noteq> 0"
      and "n' = (if AudioClip_LeftSamples E c < n then AudioClip_LeftSamples E c else n)"
      and "c1 = fetch_pcmFrameSize E c"
      and "ex = fp_samples_to_ms E (m_readSamples c1) (rd_GetAudioOutSampleRate E (m_srcReader c))
                 + m_startOffset c1"
      and "c2 = init_seek E ex c1"
      and "fw = rd_IsDirectionForward E (m_srcReader c2)"
      and "read_drift E c = (sk, d)"
      and "compensate E n' ex sk d c2 = (Inr (amat, se), c3)"
      and "read_from_source E n' ex amat se c3 = (Inr (amat', se'), c4)"
      and "state_update E fw eof amat' se' c4 = (res, c')"
proof (cases "m_eof c \<or> AudioClip_LeftSamples E c = 0")
  case True
  then show ?thesis
    using assms early by (auto simp: AudioClip_ReadAudioSamples_def)
next
  case False
  define n' where "n' = (if AudioClip_LeftSamples E c < n then AudioClip_LeftSamples E c else n)"
  define c1 where "c1 = fetch_pcmFrameSize E c"
  define ex where "ex = fp_samples_to_ms E (m_readSamples c1)
      (rd_GetAudioOutSampleRate E (m_srcReader c)) + m_startOffset c1"
  define c2 where "c2 = init_seek E ex c1"
  define fw where "fw = rd_IsDirectionForward E (m_srcReader c2)"
  obtain sk d where m: "read_drift E c = (sk, d)"
    by fastforce
  then have m': "mismatch (rd_GetReadPos E (m_srcReader c2)) ex
      (rd_GetAudioOutSampleRate E (m_srcReader c)) fw = (sk, d)"
    by (simp add: read_drift_def Let_def c1_def ex_def c2_def fw_def)
  have r: "read_and_update E n' eof ex fw sk d c2 = (Inr res, c')"
    using assms False m'
    unfolding AudioClip_ReadAudioSamples_def Let_def n'_def [symmetric] c1_def [symmetric]
      ex_def [symmetric] c2_def [symmetric] fw_def [symmetric]
    by simp
  obtain x1 c3 where 1: "compensate E n' ex sk d c2 = (x1, c3)"
    by fastforce
  then obtain amat se where x1: "x1 = Inr (amat, se)"
    using r by (cases x1) (auto simp: read_and_update_def)
  obtain x2 c4 where 2: "read_from_source E n' ex amat se c3 = (x2, c4)"
    by fastforce
  then obtain amat' se' where x2: "x2 = Inr (amat', se')"
    using r 1 x1 by (cases x2) (auto simp: read_and_update_def)
  have 3: "state_update E fw eof amat' se' c4 = (res, c')"
    using r 1 x1 2 x2 by (auto simp: read_and_update_def split: prod.splits)
  show ?thesis
    using False run [OF _ _ n'_def c1_def ex_def c2_def fw_def m 1 [unfolded x1] 2 [unfolded x2] 3]
    by simp
qed

lemma ucast_up_down_id: "(ucast (ucast (x :: uint32_t) :: int64_t) :: uint32_t) = x"
  by (rule ucast_up_ucast_id) (simp add: is_up)

lemma ucast_down_le:
  fixes d :: int64_t and m :: uint32_t
  assumes "0 \<le> sint d" and "sint d \<le> uint m"
  shows "(ucast d :: uint32_t) \<le> m"
proof -
  have m: "uint m < 2 ^ 32"
    using uint_bounded [of m] by simp
  have "sint d < 2 ^ 64"
    using sint_lt [of d] by simp
  then have "take_bit 64 (sint d) = sint d"
    using assms(1) by (simp add: take_bit_int_eq_self)
  then have u: "uint d = sint d"
    using uint_sint [of d] by simp
  have "sint d < 2 ^ 32"
    using assms(2) m by linarith
  then have "take_bit 32 (sint d) = sint d"
    using assms(1) by (simp add: take_bit_int_eq_self)
  then have "uint (ucast d :: uint32_t) = sint d"
    by (simp add: unsigned_ucast_eq u)
  then show ?thesis
    using assms(2) by (simp add: word_le_def)
qed

lemma prelude_fields:
  "m_readSamples (init_seek E ex (fetch_pcmFrameSize E c)) = m_readSamples c"
  "m_totalSamples (init_seek E ex (fetch_pcmFrameSize E c)) = m_totalSamples c"
  "m_eof (init_seek E ex (fetch_pcmFrameSize E c)) = m_eof c"
  "reader_keeps_direction E \<Longrightarrow>
     rd_IsDirectionForward E (m_srcReader (init_seek E ex (fetch_pcmFrameSize E c)))
       = rd_IsDirectionForward E (m_srcReader c)"
  by (simp_all add: init_seek_def fetch_pcmFrameSize_def reader_keeps_direction_def)

lemma compensate_result:
  assumes "compensate E n' ex sk d c2 = (Inr (amat, se), c3)"
  shows "m_readSamples c3 = m_readSamples c2" and "m_totalSamples c3 = m_totalSamples c2"
    and "m_eof c3 = m_eof c2"
    and "mat_w amat \<le> n'"
    and "reader_keeps_direction E \<Longrightarrow>
           rd_IsDirectionForward E (m_srcReader c3) = rd_IsDirectionForward E (m_srcReader c2)"
    and "\<not> ImMat_empty amat \<Longrightarrow> \<not> se"
    and "\<not> (0 <s d \<and> \<not> sk) \<Longrightarrow> ImMat_empty amat"
proof -
  obtain ok skipMat eof1 r1
    where r: "rd_ReadAudioSamples E (sint d) False (m_srcReader c2) = ((ok, skipMat, eof1), r1)"
    by (metis prod_cases3 surj_pair)
  have k: "rd_IsDirectionForward E r1 = rd_IsDirectionForward E (m_srcReader c2)"
    if "reader_keeps_direction E"
    using that r unfolding reader_keeps_direction_def by (metis snd_conv)
  note u = assms [unfolded compensate_def Let_def r prod.case]
  show "m_readSamples c3 = m_readSamples c2" "m_totalSamples c3 = m_totalSamples c2"
    "m_eof c3 = m_eof c2"
    using u by (auto split: if_splits)
  show "reader_keeps_direction E \<Longrightarrow>
           rd_IsDirectionForward E (m_srcReader c3) = rd_IsDirectionForward E (m_srcReader c2)"
    using u k by (auto split: if_splits)
  show "\<not> ImMat_empty amat \<Longrightarrow> \<not> se"
    using u by (auto simp: ImMat_empty_def ImMat_default_def split: if_splits)
  show "\<not> (0 <s d \<and> \<not> sk) \<Longrightarrow> ImMat_empty amat"
    using u by (auto simp: ImMat_empty_def ImMat_default_def split: if_splits)
  show "mat_w amat \<le> n'"
  proof (cases "0 <s d \<and> \<not> sk")
    case False
    then have "mat_w amat = 0"
      using u by (auto simp: ImMat_default_def split: if_splits)
    then show ?thesis by simp
  next
    case True
    then have w: "mat_w amat = ucast (if ucast n' <s d then ucast n' else d)"
      using u by (auto split: if_splits)
    show ?thesis
    proof (cases "ucast n' <s d")
      case True
      then show ?thesis
        using w by (simp add: ucast_up_down_id)
    next
      case False
      then have "sint d \<le> uint n'"
        by (simp add: signed_compare sint_ucast_u32)
      moreover have "0 \<le> sint d"
        using \<open>0 <s d \<and> \<not> sk\<close> by (simp add: signed_compare)
      ultimately show ?thesis
        using w False ucast_down_le [of d n'] by simp
    qed
  qed
qed

lemma read_from_source_result:
  assumes "read_from_source E n' ex amat se c3 = (Inr (amat', se'), c4)"
  shows "m_readSamples c4 = m_readSamples c3" and "m_totalSamples c4 = m_totalSamples c3"
    and "m_eof c4 = m_eof c3"
    and "reader_delivers_at_most E \<Longrightarrow> mat_w amat \<le> n' \<Longrightarrow> mat_w amat' \<le> n'"
    and "reader_keeps_direction E \<Longrightarrow>
           rd_IsDirectionForward E (m_srcReader c4) = rd_IsDirectionForward E (m_srcReader c3)"
    and "\<not> m_eof c3 \<and> ImMat_empty amat \<Longrightarrow>
           mat_w amat' = mat_w (fst (snd (fst (rd_ReadAudioSamples E (uint n') se (m_srcReader c3)))))
           \<and> se' = snd (snd (fst (rd_ReadAudioSamples E (uint n') se (m_srcReader c3))))"
    and "\<not> (\<not> m_eof c3 \<and> ImMat_empty amat) \<Longrightarrow> amat' = amat \<and> se' = se"
proof -
  obtain ok mat eof1 r1
    where r: "rd_ReadAudioSamples E (uint n') se (m_srcReader c3) = ((ok, mat, eof1), r1)"
    by (metis prod_cases3 surj_pair)
  have k: "rd_IsDirectionForward E r1 = rd_IsDirectionForward E (m_srcReader c3)"
    if "reader_keeps_direction E"
    using that r unfolding reader_keeps_direction_def by (metis snd_conv)
  have m: "uint (mat_w mat) \<le> uint n'" if "reader_delivers_at_most E"
    using that r uint_ge_0 [of n'] unfolding reader_delivers_at_most_def
    by (metis fst_conv snd_conv)
  note u = assms [unfolded read_from_source_def r prod.case]
  show "m_readSamples c4 = m_readSamples c3" "m_totalSamples c4 = m_totalSamples c3"
    "m_eof c4 = m_eof c3"
    using u by (auto split: if_splits)
  show "reader_keeps_direction E \<Longrightarrow>
           rd_IsDirectionForward E (m_srcReader c4) = rd_IsDirectionForward E (m_srcReader c3)"
    using u k by (auto split: if_splits)
  show "\<not> m_eof c3 \<and> ImMat_empty amat \<Longrightarrow>
           mat_w amat' = mat_w (fst (snd (fst (rd_ReadAudioSamples E (uint n') se (m_srcReader c3)))))
           \<and> se' = snd (snd (fst (rd_ReadAudioSamples E (uint n') se (m_srcReader c3))))"
    using u by (auto simp: r split: if_splits)
  show "\<not> (\<not> m_eof c3 \<and> ImMat_empty amat) \<Longrightarrow> amat' = amat \<and> se' = se"
    using u by (auto split: if_splits)
  show "reader_delivers_at_most E \<Longrightarrow> mat_w amat \<le> n' \<Longrightarrow> mat_w amat' \<le> n'"
    using u m by (auto simp: word_le_def split: if_splits)
qed

lemma state_update_result:
  assumes "state_update E fw eof amat' se' c4 = ((amat'', cnt, eof'), c')"
  shows "cnt = mat_w amat'"
    and "m_readSamples c' = m_readSamples c4 + (if fw then ucast cnt else - ucast cnt)"
    and "m_totalSamples c' = m_totalSamples c4" and "m_srcReader c' = m_srcReader c4"
    and "m_eof c' \<longleftrightarrow> m_eof c4 \<or> AudioClip_LeftSamples E c' = 0 \<or> se'"
    and "eof' \<longleftrightarrow> (if AudioClip_LeftSamples E c' = 0 \<or> se' then True else eof)"
proof -
  define c5 where "c5 = (if \<not> ImMat_empty amat'
     then c4\<lparr>m_readSamples := m_readSamples c4 +
            (if fw then ucast (mat_w amat') else - ucast (mat_w amat'))\<rparr> else c4)"
  define hit where "hit \<longleftrightarrow> AudioClip_LeftSamples E c5 = 0 \<or> se'"
  have s: "state_update E fw eof amat' se' c4 =
      ((case m_filter c5 of None \<Rightarrow> amat'
        | Some filterPcm \<Rightarrow> if 0 < (if \<not> ImMat_empty amat' then mat_w amat' else 0)
            then filterPcm amat' (fp_ts_to_ms E (mat_time_stamp amat') - m_start c5)
                   (AudioClip_Duration (if hit then c5\<lparr>m_eof := True\<rparr> else c5))
            else amat',
        if \<not> ImMat_empty amat' then mat_w amat' else 0,
        if hit then True else eof),
       if hit then c5\<lparr>m_eof := True\<rparr> else c5)"
    unfolding state_update_def Let_def c5_def hit_def by (simp split: option.split)
  have c': "c' = (if hit then c5\<lparr>m_eof := True\<rparr> else c5)"
    and cnt: "cnt = (if \<not> ImMat_empty amat' then mat_w amat' else 0)"
    and eof': "eof' = (if hit then True else eof)"
    using assms unfolding s by simp_all
  have l: "AudioClip_LeftSamples E c' = AudioClip_LeftSamples E c5"
    unfolding c' by (simp add: AudioClip_LeftSamples_def)
  show "cnt = mat_w amat'"
    using cnt by (simp add: ImMat_empty_def)
  then show "m_readSamples c' = m_readSamples c4 + (if fw then ucast cnt else - ucast cnt)"
    unfolding c' c5_def by (simp add: ImMat_empty_def)
  show "m_totalSamples c' = m_totalSamples c4" "m_srcReader c' = m_srcReader c4"
    unfolding c' c5_def by simp_all
  show "m_eof c' \<longleftrightarrow> m_eof c4 \<or> AudioClip_LeftSamples E c' = 0 \<or> se'"
    unfolding l unfolding c' hit_def c5_def by auto
  show "eof' \<longleftrightarrow> (if AudioClip_LeftSamples E c' = 0 \<or> se' then True else eof)"
    unfolding l eof' hit_def by simp
qed

lemma LeftSamples_exhausted:
  assumes "m_totalSamples c' = m_totalSamples c"
    and "rd_IsDirectionForward E (m_srcReader c') = rd_IsDirectionForward E (m_srcReader c)"
    and "m_readSamples c' = m_readSamples c +
           (if rd_IsDirectionForward E (m_srcReader c)
            then ucast (AudioClip_LeftSamples E c) else - ucast (AudioClip_LeftSamples E c))"
  shows "AudioClip_LeftSamples E c' = 0"
proof -
  have f: "(ucast (t - (r + ucast (ucast (t - r) :: uint32_t)) :: int64_t) :: uint32_t) = 0"
    for t r :: int64_t
    by (simp add: ucast_down_diff ucast_down_sum ucast_up_down_id)
  have b: "(ucast (r - ucast (ucast r :: uint32_t) :: int64_t) :: uint32_t) = 0"
    for r :: int64_t
    by (simp add: ucast_down_diff ucast_up_down_id)
  show ?thesis
  proof (cases "rd_IsDirectionForward E (m_srcReader c)")
    case True
    show ?thesis
    proof (cases "m_readSamples c <s m_totalSamples c")
      case True
      with \<open>rd_IsDirectionForward E (m_srcReader c)\<close> assms show ?thesis
        by (simp add: AudioClip_LeftSamples_def f)
    next
      case False
      with \<open>rd_IsDirectionForward E (m_srcReader c)\<close> assms show ?thesis
        by (simp add: AudioClip_LeftSamples_def)
    qed
  next
    case False
    show ?thesis
    proof (cases "\<not> m_totalSamples c <s m_readSamples c \<and> 0 \<le>s m_readSamples c")
      case True
      with \<open>\<not> rd_IsDirectionForward E (m_srcReader c)\<close> assms show ?thesis
        by (simp add: AudioClip_LeftSamples_def b)
    next
      case False
      with \<open>\<not> rd_IsDirectionForward E (m_srcReader c)\<close> assms show ?thesis
        by (auto simp: AudioClip_LeftSamples_def)
    qed
  qed
qed

lemma read_drift_run:
  assumes "c1 = fetch_pcmFrameSize E c"
    and "ex = fp_samples_to_ms E (m_readSamples c1) (rd_GetAudioOutSampleRate E (m_srcReader c))
               + m_startOffset c1"
    and "c2 = init_seek E ex c1"
    and "mismatch (rd_GetReadPos E (m_srcReader c2)) ex
           (rd_GetAudioOutSampleRate E (m_srcReader c))
           (rd_IsDirectionForward E (m_srcReader c2)) = v"
  shows "read_drift E c = v"
  using assms(4) unfolding read_drift_def Let_def assms(1-3) [symmetric] .

lemma source_read_args_run:
  assumes "\<not> m_eof c" and "AudioClip_LeftSamples E c \<noteq> 0"
    and "n' = (if AudioClip_LeftSamples E c < n then AudioClip_LeftSamples E c else n)"
    and "c1 = fetch_pcmFrameSize E c"
    and "ex = fp_samples_to_ms E (m_readSamples c1) (rd_GetAudioOutSampleRate E (m_srcReader c))
               + m_startOffset c1"
    and "c2 = init_seek E ex c1"
    and "read_drift E c = (sk, d)"
    and "compensate E n' ex sk d c2 = (Inr (amat, se), c3)"
  shows "source_read_args E n c =
     (if \<not> m_eof c3 \<and> ImMat_empty amat then Some (uint n', se, m_srcReader c3) else None)"
proof -
  have m: "mismatch (rd_GetReadPos E (m_srcReader c2)) ex
      (rd_GetAudioOutSampleRate E (m_srcReader c))
      (rd_IsDirectionForward E (m_srcReader c2)) = (sk, d)"
    using assms(7) unfolding read_drift_def Let_def assms(4-6) [symmetric] .
  show ?thesis
    using assms(1,2) m assms(8)
    unfolding source_read_args_def Let_def assms(3-6) [symmetric]
    by simp
qed

lemma ReadAudioSamples_properties:
  assumes "reader_delivers_at_most E" and "reader_keeps_direction E"
    and "AudioClip_ReadAudioSamples E n eof c = (Inr (amat, cnt, eof'), c')"
  shows "cnt \<le> AudioClip_LeftSamples E c \<and> cnt \<le> n
    \<and> (cnt = AudioClip_LeftSamples E c \<longrightarrow> eof' \<and> m_eof c')
    \<and> (AudioClip_LeftSamples E c < n \<and> \<not> m_eof c \<and> \<not> silence_backfilled E c
         \<and> source_delivers_all_asked E n c \<longrightarrow> cnt = AudioClip_LeftSamples E c)
    \<and> (m_eof c' \<longleftrightarrow> m_eof c \<or> AudioClip_LeftSamples E c' = 0 \<or> source_reports_eof E n c)"
  using assms(3)
proof (cases rule: ReadAudioSamples_cases)
  case early
  then have "AudioClip_LeftSamples E c' = AudioClip_LeftSamples E c"
    by (simp add: AudioClip_LeftSamples_def)
  moreover have "source_read_args E n c = None"
    using early(1) by (auto simp: source_read_args_def)
  ultimately show ?thesis
    using early by (auto simp: source_reports_eof_def)
next
  case (run n' c1 ex c2 fw sk d amat0 se c3 amat' se' c4)
  note co = compensate_result [OF run(9)]
  note rs = read_from_source_result [OF run(10)]
  note su = state_update_result [OF run(11)]
  note args = source_read_args_run [OF run(1-6) run(8,9)]
  have c2: "c2 = init_seek E ex (fetch_pcmFrameSize E c)"
    using run(4,6) by simp
  have n': "n' \<le> AudioClip_LeftSamples E c" "n' \<le> n"
    using run(3) by auto
  have w: "mat_w amat' \<le> n'"
    using rs(4) [OF assms(1) co(4)] .
  have rd: "m_readSamples c4 = m_readSamples c" and tot: "m_totalSamples c' = m_totalSamples c"
    and e4: "\<not> m_eof c4" "\<not> m_eof c3"
    using co(1-3) rs(1-3) su(3) run(1) by (simp_all add: c2 prelude_fields)
  have dir: "rd_IsDirectionForward E (m_srcReader c') = rd_IsDirectionForward E (m_srcReader c)"
    "fw = rd_IsDirectionForward E (m_srcReader c)"
    using co(5) [OF assms(2)] rs(5) [OF assms(2)] su(4) run(7) prelude_fields(4) [OF assms(2)]
    by (simp_all add: c2)
  have 1: "cnt \<le> AudioClip_LeftSamples E c" "cnt \<le> n"
    using w n' su(1) by auto
  have 2: "eof' \<and> m_eof c'" if "cnt = AudioClip_LeftSamples E c"
  proof -
    have "AudioClip_LeftSamples E c' = 0"
      using su(2) that rd dir by (intro LeftSamples_exhausted [OF tot dir(1)]) simp
    then show ?thesis
      using su(5,6) by simp
  qed
  have 3: "cnt = AudioClip_LeftSamples E c"
    if "AudioClip_LeftSamples E c < n" "\<not> silence_backfilled E c"
      "source_delivers_all_asked E n c"
  proof -
    have e: "ImMat_empty amat0"
      using that(2) run(8) by (intro co(7)) (simp add: silence_backfilled_def)
    then have "source_read_args E n c = Some (uint n', se, m_srcReader c3)"
      using args e4(2) by simp
    then have "mat_w (fst (snd (fst (rd_ReadAudioSamples E (uint n') se (m_srcReader c3)))))
        = word_of_int (uint n')"
      using that(3) by (simp add: source_delivers_all_asked_def)
    then have "mat_w amat' = n'"
      using rs(6) e e4(2) by simp
    then show ?thesis
      using su(1) run(3) that(1) by simp
  qed
  have 4: "m_eof c' \<longleftrightarrow> m_eof c \<or> AudioClip_LeftSamples E c' = 0 \<or> source_reports_eof E n c"
  proof -
    have "se' = source_reports_eof E n c"
    proof (cases "ImMat_empty amat0")
      case True
      then show ?thesis
        using args e4(2) rs(6) by (simp add: source_reports_eof_def)
    next
      case False
      then show ?thesis
        using args co(6) rs(7) by (simp add: source_reports_eof_def)
    qed
    then show ?thesis
      using su(5) e4(1) run(1) by simp
  qed
  show ?thesis
    using 1 2 3 4 by blast
qed

lemma sim_contracts:
  "reader_delivers_at_most sim" "reader_keeps_direction sim"
proof -
  have "uint (word_of_int (max 0 (min n a)) :: uint32_t) \<le> n" if "0 \<le> n" for n a :: int
  proof -
    have "uint (word_of_int (max 0 (min n a)) :: uint32_t) \<le> max 0 (min n a)"
      by (simp add: uint_word_of_int zmod_le_nonneg_dividend)
    then show ?thesis
      using that by simp
  qed
  then show "reader_delivers_at_most sim"
    by (simp add: reader_delivers_at_most_def sim_def sim_read_def Let_def)
  show "reader_keeps_direction sim"
    by (simp add: reader_keeps_direction_def sim_def sim_read_def Let_def)
qed

text \<open>
  C2, as stated, fails where silence is returned. The reader session of the clip below
  reports the position 10 ms where the clip expects 0: a mismatch of 480 samples. With
  240000 samples left and 1000000 requested, the call returns 480 samples of silence and
  does not set the end-of-stream flag.
\<close>

theorem ReadAudioSamples_count_and_eof_counterexample:
  "AudioClip_new sim 6 sim_parser_late 2 48000 ''fltp'' 0 5000 0 0 = Inr clip_late
   \<and> AudioClip_LeftSamples sim clip_late = 240000
   \<and> AudioClip_LeftSamples sim clip_late < 1000000
   \<and> AudioClip_ReadAudioSamples sim 1000000 False clip_late
       = (Inr (\<lparr>mat_w = 480, mat_time_stamp = 0\<rparr>, 480, False), clip_late_read)
   \<and> (480 :: uint32_t) \<noteq> AudioClip_LeftSamples sim clip_late
   \<and> \<not> m_eof clip_late_read"
proof -
  have n: "AudioClip_new sim 6 sim_parser_late 2 48000 ''fltp'' 0 5000 0 0 = Inr clip_late"
    by (simp add: AudioClip_new_def clip_eval clip_late_def sim_parser_late_def sim_eval
        machine_eval)
  have l: "AudioClip_LeftSamples sim clip_late = 240000"
    by (simp add: AudioClip_LeftSamples_def clip_late_def sim_eval machine_eval)
  have r: "AudioClip_ReadAudioSamples sim 1000000 False clip_late
       = (Inr (\<lparr>mat_w = 480, mat_time_stamp = 0\<rparr>, 480, False), clip_late_read)"
    by (rule ReadAudioSamples_run [where n' = 240000
          and ?c1.0 = "clip_late\<lparr>m_pcmFrameSize := 8\<rparr>" and ex = 0
          and ?c2.0 = "clip_late\<lparr>m_pcmFrameSize := 8, m_initSeek := True\<rparr>"
          and fw = True and sk = False and d = 480
          and amat = "\<lparr>mat_w = 480, mat_time_stamp = 0\<rparr>" and se = False
          and ?c3.0 = "clip_late\<lparr>m_pcmFrameSize := 8, m_initSeek := True\<rparr>"
          and amat' = "\<lparr>mat_w = 480, mat_time_stamp = 0\<rparr>" and se' = False
          and ?c4.0 = "clip_late\<lparr>m_pcmFrameSize := 8, m_initSeek := True\<rparr>"])
      (simp_all add: read_defs clip_late_read_def clip_late_def sim_eval machine_eval)
  show ?thesis
    using n l r by (simp add: clip_late_read_def clip_late_def clip_5000_def)
qed

lemma read_past_end_clip_5000:
  "AudioClip_ReadAudioSamples sim 1000000 False clip_5000
     = (Inr (\<lparr>mat_w = 240000, mat_time_stamp = 0\<rparr>, 240000, True), clip_5000_at_eof)"
  by (rule ReadAudioSamples_run [where n' = 240000
        and ?c1.0 = "clip_5000\<lparr>m_pcmFrameSize := 8\<rparr>" and ex = 0
        and ?c2.0 = "clip_5000\<lparr>m_pcmFrameSize := 8, m_initSeek := True\<rparr>"
        and fw = True and sk = False and d = 0
        and amat = "\<lparr>mat_w = 0, mat_time_stamp = 0\<rparr>" and se = False
        and ?c3.0 = "clip_5000\<lparr>m_pcmFrameSize := 8, m_initSeek := True\<rparr>"
        and amat' = "\<lparr>mat_w = 240000, mat_time_stamp = 0\<rparr>" and se' = False
        and ?c4.0 = "clip_5000\<lparr>m_srcReader := sim_reader_5000\<lparr>sr_pos := 240000\<rparr>,
                       m_pcmFrameSize := 8, m_initSeek := True\<rparr>"])
    (simp_all add: read_defs clip_5000_at_eof_def sim_eval machine_eval)

lemma source_read_args_clip_5000:
  "source_read_args sim 1000000 clip_5000 = Some (240000, False, sim_reader_5000)"
proof -
  have d: "read_drift sim clip_5000 = (False, 0)"
    by (rule read_drift_run [where ?c1.0 = "clip_5000\<lparr>m_pcmFrameSize := 8\<rparr>" and ex = 0
          and ?c2.0 = "clip_5000\<lparr>m_pcmFrameSize := 8, m_initSeek := True\<rparr>"])
      (simp_all add: read_defs sim_eval machine_eval)
  have "source_read_args sim 1000000 clip_5000 =
     (if \<not> m_eof (clip_5000\<lparr>m_pcmFrameSize := 8, m_initSeek := True\<rparr>)
         \<and> ImMat_empty \<lparr>mat_w = 0, mat_time_stamp = (0 :: int64_t)\<rparr>
      then Some (uint (240000 :: uint32_t), False,
                 m_srcReader (clip_5000\<lparr>m_pcmFrameSize := 8, m_initSeek := True\<rparr>))
      else None)"
    by (rule source_read_args_run [where ?c1.0 = "clip_5000\<lparr>m_pcmFrameSize := 8\<rparr>" and ex = 0
          and ?c2.0 = "clip_5000\<lparr>m_pcmFrameSize := 8, m_initSeek := True\<rparr>"
          and sk = False and d = 0, OF _ _ _ _ _ _ d])
      (simp_all add: read_defs sim_eval machine_eval)
  then show ?thesis
    by (simp add: ImMat_empty_def clip_5000_def)
qed

text \<open>
  C2, amended. For a clip whose reader session never delivers more than it is asked for
  and does not change direction by itself, a call of \<^verbatim>\<open>ReadAudioSamples\<close> that throws
  nothing delivers at most the requested count and at most what \<^verbatim>\<open>LeftSamples()\<close>
  returned before the call. Whenever it delivers exactly \<^verbatim>\<open>LeftSamples()\<close> samples it sets
  the end-of-stream flag. When the requested count exceeds \<^verbatim>\<open>LeftSamples()\<close>, the clip
  is not at its end, no silence is returned and, in this call, the session delivers all
  it is asked for, the call delivers exactly \<^verbatim>\<open>LeftSamples()\<close> samples. And the clip's
  flag is set after the call exactly when it was set before, or \<^verbatim>\<open>LeftSamples()\<close> has
  reached 0, or the session has reported the end of the stream in this call: absent
  such a report, exactly when it was set before or \<^verbatim>\<open>LeftSamples()\<close> has reached 0.
\<close>

theorem ReadAudioSamples_count_and_eof:
  assumes "reader_delivers_at_most E" and "reader_keeps_direction E"
    and "AudioClip_ReadAudioSamples E n eof c = (Inr (amat, cnt, eof'), c')"
  shows "cnt \<le> AudioClip_LeftSamples E c \<and> cnt \<le> n
    \<and> (cnt = AudioClip_LeftSamples E c \<longrightarrow> eof' \<and> m_eof c')
    \<and> (AudioClip_LeftSamples E c < n \<and> \<not> m_eof c \<and> \<not> silence_backfilled E c
         \<and> source_delivers_all_asked E n c \<longrightarrow> cnt = AudioClip_LeftSamples E c)
    \<and> (m_eof c' \<longleftrightarrow> m_eof c \<or> AudioClip_LeftSamples E c' = 0 \<or> source_reports_eof E n c)
    \<and> (\<not> source_reports_eof E n c \<longrightarrow>
          (m_eof c' \<longleftrightarrow> m_eof c \<or> AudioClip_LeftSamples E c' = 0))"
  using ReadAudioSamples_properties [OF assms] by blast

theorem ReadAudioSamples_count_and_eof_witness:
  "reader_delivers_at_most sim \<and> reader_keeps_direction sim
   \<and> AudioClip_ReadAudioSamples sim 1000000 False clip_5000
       = (Inr (\<lparr>mat_w = 240000, mat_time_stamp = 0\<rparr>, 240000, True), clip_5000_at_eof)
   \<and> AudioClip_LeftSamples sim clip_5000 = 240000
   \<and> AudioClip_LeftSamples sim clip_5000 < 1000000
   \<and> \<not> m_eof clip_5000 \<and> \<not> silence_backfilled sim clip_5000
   \<and> source_delivers_all_asked sim 1000000 clip_5000
   \<and> \<not> source_reports_eof sim 1000000 clip_5000
   \<and> m_eof clip_5000_at_eof \<and> AudioClip_LeftSamples sim clip_5000_at_eof = 0"
proof -
  have l: "AudioClip_LeftSamples sim clip_5000 = 240000"
    by (simp add: AudioClip_LeftSamples_def sim_eval machine_eval)
  have "read_drift sim clip_5000 = (False, 0)"
    by (rule read_drift_run [where ?c1.0 = "clip_5000\<lparr>m_pcmFrameSize := 8\<rparr>" and ex = 0
          and ?c2.0 = "clip_5000\<lparr>m_pcmFrameSize := 8, m_initSeek := True\<rparr>"])
      (simp_all add: read_defs sim_eval machine_eval)
  then have s: "\<not> silence_backfilled sim clip_5000"
    by (simp add: silence_backfilled_def signed_compare)
  have a: "source_delivers_all_asked sim 1000000 clip_5000"
    "\<not> source_reports_eof sim 1000000 clip_5000"
    unfolding source_delivers_all_asked_def source_reports_eof_def source_read_args_clip_5000
    by (simp_all add: sim_def sim_read_def sim_reader_5000_def machine_eval)
  have e: "\<not> m_eof clip_5000" "m_eof clip_5000_at_eof"
    by (simp_all add: clip_5000_at_eof_def clip_5000_def)
  show ?thesis
    using ReadAudioSamples_count_and_eof [OF sim_contracts read_past_end_clip_5000]
      sim_contracts read_past_end_clip_5000 l s a e
    by simp
qed

subsection \<open>Reading from an overlap\<close>

lemma AudioOverlap_ReadAudioSamples_run:
  assumes "overlap_clamped_count E n ov = k" and "k \<noteq> 0"
    and "AudioClip_ReadAudioSamples E k False (ov_frontClip ov) = (Inr (amat1, cnt1, eof1), front')"
    and "AudioClip_ReadAudioSamples E cnt1 False (ov_rearClip ov) = (Inr (amat2, cnt2, eof2), rear')"
  shows "AudioOverlap_ReadAudioSamples E n eof ov
     = (Inr (ov_transition ov amat1 amat2 (fp_ts_to_ms E (mat_time_stamp amat1)), cnt2,
             eof1 \<or> eof2),
        ov\<lparr>ov_frontClip := front', ov_rearClip := rear'\<rparr>)"
  using assms(2-4)
  unfolding AudioOverlap_ReadAudioSamples_def Let_def
    assms(1) [unfolded overlap_clamped_count_def Let_def]
  by simp

text \<open>
  C10. When the clamped count is not 0 and nothing is thrown, the overlap reads the
  front clip with the clamped count and then the rear clip with the count that the front
  clip has delivered; the count it reports is the count the rear clip has delivered, the
  matrix is the transition's mix of the two, and the flag is the disjunction of the two
  clips' flags. For reader sessions that never deliver more than asked for and keep
  their direction, the reported count is at most the front clip's count, which is at
  most the clamped count.
\<close>

theorem Overlap_read_passes_front_count_to_rear:
  assumes "AudioOverlap_ReadAudioSamples E n eof ov = (Inr (amat, cnt, eof'), ov')"
    and "overlap_clamped_count E n ov \<noteq> 0"
  shows "\<exists>amat1 cnt1 eof1 amat2 eof2.
      AudioClip_ReadAudioSamples E (overlap_clamped_count E n ov) False (ov_frontClip ov)
        = (Inr (amat1, cnt1, eof1), ov_frontClip ov')
    \<and> AudioClip_ReadAudioSamples E cnt1 False (ov_rearClip ov)
        = (Inr (amat2, cnt, eof2), ov_rearClip ov')
    \<and> amat = ov_transition ov amat1 amat2 (fp_ts_to_ms E (mat_time_stamp amat1))
    \<and> eof' = (eof1 \<or> eof2)
    \<and> (reader_delivers_at_most E \<and> reader_keeps_direction E \<longrightarrow>
          cnt \<le> cnt1 \<and> cnt1 \<le> overlap_clamped_count E n ov)"
proof -
  define k where "k = overlap_clamped_count E n ov"
  obtain x1 front' where 1: "AudioClip_ReadAudioSamples E k False (ov_frontClip ov) = (x1, front')"
    by fastforce
  note u = assms(1) [unfolded AudioOverlap_ReadAudioSamples_def Let_def,
      folded overlap_clamped_count_def [unfolded Let_def], folded k_def]
  have k: "k \<noteq> 0"
    using assms(2) by (simp add: k_def)
  obtain amat1 cnt1 eof1 where x1: "x1 = Inr (amat1, cnt1, eof1)"
    using u k 1 by (cases x1) auto
  obtain x2 rear' where 2: "AudioClip_ReadAudioSamples E cnt1 False (ov_rearClip ov) = (x2, rear')"
    by fastforce
  obtain amat2 cnt2 eof2 where x2: "x2 = Inr (amat2, cnt2, eof2)"
    using u k 1 x1 2 by (cases x2) auto
  have r: "amat = ov_transition ov amat1 amat2 (fp_ts_to_ms E (mat_time_stamp amat1))"
    "cnt = cnt2" "eof' = (eof1 \<or> eof2)" "ov' = ov\<lparr>ov_frontClip := front', ov_rearClip := rear'\<rparr>"
    using u k 1 x1 2 x2 by auto
  have b: "cnt \<le> cnt1 \<and> cnt1 \<le> k"
    if "reader_delivers_at_most E" "reader_keeps_direction E"
    using ReadAudioSamples_properties [OF that 1 [unfolded x1]]
      ReadAudioSamples_properties [OF that 2 [unfolded x2]] r(2)
    by simp
  show ?thesis
    using 1 x1 2 x2 r b unfolding k_def by auto
qed

lemma read_1000_clip_late:
  "AudioClip_ReadAudioSamples sim 1000 False clip_late
     = (Inr (\<lparr>mat_w = 480, mat_time_stamp = 0\<rparr>, 480, False), clip_late_read)"
  by (rule ReadAudioSamples_run [where n' = 1000
        and ?c1.0 = "clip_late\<lparr>m_pcmFrameSize := 8\<rparr>" and ex = 0
        and ?c2.0 = "clip_late\<lparr>m_pcmFrameSize := 8, m_initSeek := True\<rparr>"
        and fw = True and sk = False and d = 480
        and amat = "\<lparr>mat_w = 480, mat_time_stamp = 0\<rparr>" and se = False
        and ?c3.0 = "clip_late\<lparr>m_pcmFrameSize := 8, m_initSeek := True\<rparr>"
        and amat' = "\<lparr>mat_w = 480, mat_time_stamp = 0\<rparr>" and se' = False
        and ?c4.0 = "clip_late\<lparr>m_pcmFrameSize := 8, m_initSeek := True\<rparr>"])
    (simp_all add: read_defs clip_late_read_def clip_late_def sim_eval machine_eval)

lemma read_480_clip_3000_8000:
  "AudioClip_ReadAudioSamples sim 480 False clip_3000_8000
     = (Inr (\<lparr>mat_w = 480, mat_time_stamp = 3000\<rparr>, 480, False), clip_3000_8000_read)"
  by (rule ReadAudioSamples_run [where n' = 480
        and ?c1.0 = "clip_3000_8000\<lparr>m_pcmFrameSize := 8\<rparr>" and ex = 0
        and ?c2.0 = "clip_3000_8000\<lparr>m_pcmFrameSize := 8, m_initSeek := True\<rparr>"
        and fw = True and sk = False and d = 0
        and amat = "\<lparr>mat_w = 0, mat_time_stamp = 0\<rparr>" and se = False
        and ?c3.0 = "clip_3000_8000\<lparr>m_pcmFrameSize := 8, m_initSeek := True\<rparr>"
        and amat' = "\<lparr>mat_w = 480, mat_time_stamp = 3000\<rparr>" and se' = False
        and ?c4.0 = "clip_3000_8000\<lparr>m_srcReader := sim_reader_5000\<lparr>sr_pos := 480\<rparr>,
                       m_pcmFrameSize := 8, m_initSeek := True\<rparr>"])
    (simp_all add: read_defs clip_3000_8000_read_def clip_3000_8000_def sim_eval machine_eval)

theorem Overlap_read_passes_front_count_to_rear_witness:
  "AudioOverlap_new 1 clip_late clip_3000_8000 = overlap_late
   \<and> overlap_clamped_count sim 1000 overlap_late = 1000
   \<and> overlap_clamped_count sim 1000 overlap_late \<noteq> 0
   \<and> AudioOverlap_ReadAudioSamples sim 1000 False overlap_late
       = (Inr (\<lparr>mat_w = 480, mat_time_stamp = 3000\<rparr>, 480, False),
          overlap_late\<lparr>ov_frontClip := clip_late_read, ov_rearClip := clip_3000_8000_read\<rparr>)
   \<and> AudioClip_ReadAudioSamples sim 1000 False clip_late
       = (Inr (\<lparr>mat_w = 480, mat_time_stamp = 0\<rparr>, 480, False), clip_late_read)
   \<and> AudioClip_ReadAudioSamples sim 480 False clip_3000_8000
       = (Inr (\<lparr>mat_w = 480, mat_time_stamp = 3000\<rparr>, 480, False), clip_3000_8000_read)
   \<and> m_readSamples clip_3000_8000_read = 480"
proof -
  have n: "AudioOverlap_new 1 clip_late clip_3000_8000 = overlap_late"
    by (simp add: AudioOverlap_new_def AudioOverlap_Update_def overlap_late_def clip_eval
        clip_late_def clip_3000_8000_def clip_5000_def signed_compare)
  have k: "overlap_clamped_count sim 1000 overlap_late = 1000"
    by (simp add: overlap_clamped_count_def AudioClip_LeftSamples_def overlap_late_def
        clip_late_def clip_3000_8000_def sim_eval machine_eval)
  then have k0: "overlap_clamped_count sim 1000 overlap_late \<noteq> 0"
    by simp
  have f: "AudioClip_ReadAudioSamples sim 1000 False (ov_frontClip overlap_late)
       = (Inr (\<lparr>mat_w = 480, mat_time_stamp = 0\<rparr>, 480, False), clip_late_read)"
    using read_1000_clip_late by (simp add: overlap_late_def)
  have r: "AudioClip_ReadAudioSamples sim 480 False (ov_rearClip overlap_late)
       = (Inr (\<lparr>mat_w = 480, mat_time_stamp = 3000\<rparr>, 480, False), clip_3000_8000_read)"
    using read_480_clip_3000_8000 by (simp add: overlap_late_def)
  have o: "AudioOverlap_ReadAudioSamples sim 1000 False overlap_late
       = (Inr (\<lparr>mat_w = 480, mat_time_stamp = 3000\<rparr>, 480, False),
          overlap_late\<lparr>ov_frontClip := clip_late_read, ov_rearClip := clip_3000_8000_read\<rparr>)"
    using AudioOverlap_ReadAudioSamples_run [OF k _ f r, of False]
    by (simp add: overlap_late_def DefaultAudioTransition_MixTwoAudioMats_def)
  show ?thesis
    using Overlap_read_passes_front_count_to_rear [OF o k0] n k o read_1000_clip_late
      read_480_clip_3000_8000
    by (simp add: clip_3000_8000_read_def)
qed

end
